(* ===== verification/Prelude.thy ===== *)
theory Prelude
  imports Complex_Main "HOL-Library.Word" "HOL-Library.Product_Lexorder"
begin

text \<open>
  Shared vocabulary of the model of \<^verbatim>\<open>src/cv_task_handenur.py\<close>: the Python exceptions the
  program can raise (as the left side of a sum type), the exception-and-state monad in which
  \<^verbatim>\<open>main\<close> is written, Python's \<^verbatim>\<open>int()\<close> on floats, and the generic lemmas on
  lists and results that the component theories share.
\<close>

named_theorems cv_simps "evaluation rules of the model's operations, for concrete runs"

subsection \<open>Exceptions\<close>

text \<open>
  Why an OpenCV call raises \<^verbatim>\<open>cv2.error\<close>: an assertion inside \<^verbatim>\<open>batchDistance\<close>
  (empty train set), the index check of \<^verbatim>\<open>drawMatches\<close>, the four-point check of
  \<^verbatim>\<open>findHomography\<close>, or a missing matrix given to \<^verbatim>\<open>perspectiveTransform\<close>.
\<close>

datatype cv_fault = EmptyTrainSet | BadMatchIndex | TooFewPoints | NoTransform

text \<open>
  \<^verbatim>\<open>argparse\<close> reports a bad command line as an \<^verbatim>\<open>ArgumentError\<close> carrying its message;
  \<^verbatim>\<open>parser.error\<close> turns it into \<^verbatim>\<open>SystemExit(2)\<close>.
\<close>

datatype exc =
    CvError cv_fault
  | ValueError
  | IndexError
  | TypeError
  | AttributeError
  | ArgumentError string
  | SystemExit int

type_synonym 'a res = "exc + 'a"

definition res_bind :: "'a res \<Rightarrow> ('a \<Rightarrow> 'b res) \<Rightarrow> 'b res" where
  "res_bind r f = (case r of Inl e \<Rightarrow> Inl e | Inr a \<Rightarrow> f a)"

lemma res_bind_simps [simp]:
  "res_bind (Inl e) f = Inl e"
  "res_bind (Inr a) f = f a"
  by (simp_all add: res_bind_def)

lemma res_bind_eq_Inr [simp]:
  "res_bind r f = Inr b \<longleftrightarrow> (\<exists>a. r = Inr a \<and> f a = Inr b)"
  by (cases r) simp_all

lemma res_bind_eq_Inl:
  "res_bind r f = Inl e \<longleftrightarrow> r = Inl e \<or> (\<exists>a. r = Inr a \<and> f a = Inl e)"
  by (cases r) simp_all

subsection \<open>Exceptions and state\<close>

text \<open>
  A statement of \<^verbatim>\<open>main\<close> may print or open a window (it changes the world) and may
  raise. An exception ends the program but keeps what was already printed, so a computation
  returns its result or exception together with the world reached.
\<close>

type_synonym ('s, 'a) st = "'s \<Rightarrow> 'a res \<times> 's"

definition st_return :: "'a \<Rightarrow> ('s, 'a) st" where
  "st_return a s = (Inr a, s)"

definition st_lift :: "'a res \<Rightarrow> ('s, 'a) st" where
  "st_lift r s = (r, s)"

definition st_bind :: "('s, 'a) st \<Rightarrow> ('a \<Rightarrow> ('s, 'b) st) \<Rightarrow> ('s, 'b) st" where
  "st_bind m f s = (case m s of (Inl e, s') \<Rightarrow> (Inl e, s') | (Inr a, s') \<Rightarrow> f a s')"

lemma st_simps [simp]:
  "st_return a s = (Inr a, s)"
  "st_lift r s = (r, s)"
  by (simp_all add: st_return_def st_lift_def)

lemma st_bind_Inl [simp]: "m s = (Inl e, s') \<Longrightarrow> st_bind m f s = (Inl e, s')"
  by (simp add: st_bind_def)

lemma st_bind_Inr [simp]: "m s = (Inr a, s') \<Longrightarrow> st_bind m f s = f a s'"
  by (simp add: st_bind_def)

lemma st_bind_lift [simp]:
  "st_bind (st_lift r) f s = (case r of Inl e \<Rightarrow> (Inl e, s) | Inr a \<Rightarrow> f a s)"
  by (cases r) (simp_all add: st_bind_def)

lemma st_bind_return [simp]: "st_bind (st_return a) f s = f a s"
  by (simp add: st_bind_def)

subsection \<open>Python's \<^verbatim>\<open>int()\<close> on a float\<close>

text \<open>\<^verbatim>\<open>int(x)\<close> truncates towards zero (unlike \<open>\<lfloor>x\<rfloor>\<close> on negative values).\<close>

definition py_int :: "real \<Rightarrow> int" where
  "py_int x = (if 0 \<le> x then \<lfloor>x\<rfloor> else \<lceil>x\<rceil>)"

lemma py_int_of_int [simp]: "py_int (of_int n) = n"
  by (simp add: py_int_def)

lemma py_int_of_nat [simp]: "py_int (of_nat n) = int n"
  by (simp add: py_int_def)

lemma py_int_numeral [simp]: "py_int (numeral n) = numeral n"
  by (simp add: py_int_def)

lemma py_int_0_1 [simp]: "py_int 0 = 0" "py_int 1 = 1"
  by (simp_all add: py_int_def)

lemma py_int_int_plus_nat [simp]: "py_int (of_int a + of_nat b) = a + int b"
  by (metis of_int_add of_int_of_nat_eq py_int_of_int)

lemma py_int_eqI: "x = of_int k \<Longrightarrow> py_int x = k"
  by simp

lemma py_int_nonneg: "0 \<le> x \<Longrightarrow> py_int x = \<lfloor>x\<rfloor>"
  by (simp add: py_int_def)

lemma py_int_abs_le: "\<bar>of_int (py_int x)\<bar> \<le> \<bar>x\<bar>"
  by (auto simp: py_int_def)

lemma py_int_neg: "x < 0 \<Longrightarrow> py_int x = - \<lfloor>- x\<rfloor>"
  by (simp add: py_int_def ceiling_def)

end
