(* ===== verification/Hamming.thy ===== *)
theory Hamming
  imports Prelude
begin

text \<open>
  ORB descriptors and the distance the brute-force matcher of \<^verbatim>\<open>match_orb_features\<close>
  uses (\<^verbatim>\<open>cv2.BFMatcher(cv2.NORM_HAMMING)\<close>). An ORB descriptor is a row of 32 unsigned
  bytes; OpenCV's \<^verbatim>\<open>normHamming\<close> adds up, byte by byte, the population count of the
  XOR of the two rows. The theory shows that this is a metric on rows of one length and that
  it is bounded by eight times the row length.
\<close>

unbundle bit_operations_syntax

type_synonym byte = "8 word"
type_synonym descriptor = "byte list"

definition popcount :: "'a::len word \<Rightarrow> nat" where
  "popcount w = length (filter (bit w) [0..<LENGTH('a)])"

fun norm_hamming :: "descriptor \<Rightarrow> descriptor \<Rightarrow> nat" where
  "norm_hamming (a # as) (b # bs) = popcount (a XOR b) + norm_hamming as bs"
| "norm_hamming _ _ = 0"

subsection \<open>Population count\<close>

lemma popcount_card: "popcount (w :: 'a::len word) = card {n. n < LENGTH('a) \<and> bit w n}"
proof -
  have "{i. i < LENGTH('a) \<and> bit w ([0..<LENGTH('a)] ! i)} = {n. n < LENGTH('a) \<and> bit w n}"
    by auto
  then show ?thesis by (simp add: popcount_def length_filter_conv_card)
qed


lemma popcount_eq_0_iff [simp]: "popcount (w :: 'a::len word) = 0 \<longleftrightarrow> w = 0"
proof
  assume "popcount w = 0"
  then have "\<forall>n<LENGTH('a). \<not> bit w n" by (auto simp: popcount_def filter_empty_conv)
  then show "w = 0" by (intro bit_word_eqI) simp
qed (simp add: popcount_def)

lemma word_xor_eq_0_iff [simp]: "(a XOR b = 0) \<longleftrightarrow> a = (b :: 'a::len word)"
proof
  assume "a XOR b = 0"
  then have "bit (a XOR b) n = False" for n by simp
  then show "a = b" by (intro bit_word_eqI) (simp add: bit_xor_iff)
qed simp

lemma popcount_xor_commute: "popcount (a XOR b) = popcount (b XOR a)"
  by (simp add: xor.commute)

lemma popcount_xor_triangle:
  "popcount (a XOR c) \<le> popcount (a XOR b) + popcount (b XOR (c :: 'a::len word))"
proof -
  let ?D = "\<lambda>x y :: 'a word. {n. n < LENGTH('a) \<and> bit x n \<noteq> bit y n}"
  have "?D a c \<subseteq> ?D a b \<union> ?D b c" by auto
  then have "card (?D a c) \<le> card (?D a b \<union> ?D b c)"
    by (rule card_mono[rotated]) simp
  also have "\<dots> \<le> card (?D a b) + card (?D b c)"
    by (rule card_Un_le)
  finally show ?thesis
    by (simp add: popcount_card bit_xor_iff)
qed

subsection \<open>The Hamming norm on descriptor rows\<close>

lemma norm_hamming_Nil [simp]:
  "norm_hamming [] bs = 0" "norm_hamming as [] = 0"
  by (cases bs; simp) (cases as; simp)

lemma norm_hamming_sym: "norm_hamming a b = norm_hamming b a"
  by (induction a b rule: norm_hamming.induct) (auto simp: popcount_xor_commute)

lemma norm_hamming_self [simp]: "norm_hamming a a = 0"
  by (induction a) simp_all

lemma norm_hamming_eq_0_iff:
  "length a = length b \<Longrightarrow> norm_hamming a b = 0 \<longleftrightarrow> a = b"
  by (induction a b rule: norm_hamming.induct) auto

lemma norm_hamming_triangle:
  "length a = length b \<Longrightarrow> length b = length c \<Longrightarrow>
   norm_hamming a c \<le> norm_hamming a b + norm_hamming b c"
proof (induction a b arbitrary: c rule: norm_hamming.induct)
  case (1 x xs y ys)
  then obtain z zs where c: "c = z # zs" by (cases c) auto
  with "1.prems" have "norm_hamming xs zs \<le> norm_hamming xs ys + norm_hamming ys zs"
    by (intro "1.IH") auto
  moreover have "popcount (x XOR z) \<le> popcount (x XOR y) + popcount (y XOR z)"
    by (rule popcount_xor_triangle)
  ultimately show ?case using c by simp
qed auto

subsection \<open>Claims on the Hamming norm\<close>

text \<open>
  C22. On descriptor rows of one length (ORB rows are all 32 bytes), the distance the matcher
  ranks by is a metric: zero exactly on equal rows, symmetric, and it satisfies the triangle
  inequality.
\<close>

theorem norm_hamming_metric:
  assumes "length a = length b" and "length b = length c"
  shows "(norm_hamming a b = 0 \<longleftrightarrow> a = b) \<and> norm_hamming a b = norm_hamming b a
         \<and> norm_hamming a c \<le> norm_hamming a b + norm_hamming b c"
proof (intro conjI)
  show "norm_hamming a b = 0 \<longleftrightarrow> a = b" using assms(1) by (rule norm_hamming_eq_0_iff)
  show "norm_hamming a b = norm_hamming b a" by (rule norm_hamming_sym)
  show "norm_hamming a c \<le> norm_hamming a b + norm_hamming b c"
    using assms by (rule norm_hamming_triangle)
qed

theorem norm_hamming_metric_witness:
  "length [0::byte, 1] = length [3::byte, 1] \<and> length [3::byte, 1] = length [255::byte, 0] \<and>
   norm_hamming [0, 1] [255, 0] \<le> norm_hamming [0, 1] [3, 1] + norm_hamming [3, 1] [255, 0]"
proof -
  have "length [0::byte, 1] = length [3::byte, 1]" "length [3::byte, 1] = length [255::byte, 0]"
    by simp_all
  from norm_hamming_metric[OF this] this show ?thesis by blast
qed


end
