(* ===== verification/Knn.thy ===== *)
theory Knn
  imports Hamming "HOL-Library.Multiset"
begin

text \<open>
  The call \<^verbatim>\<open>bf.knnMatch(descriptor1, descriptor2, k=2)\<close> of \<^verbatim>\<open>match_orb_features\<close>
  (\<^verbatim>\<open>src/cv_task_handenur.py\<close>, lines 35--36), modelled after OpenCV's brute-force
  matcher: for each query row, \<^verbatim>\<open>batchDistance\<close> scans the train rows in index order and
  keeps the \<open>k\<close> best (distance, index) pairs in an array initialised with
  \<^verbatim>\<open>INT_MAX\<close>; a new pair enters when its distance is below the worst kept one and is
  shifted in after every kept pair of smaller or equal distance. The theory proves this
  one-pass routine equal to the reference "the first \<open>k\<close> candidates in (distance, index)
  order" and derives what the ratio test relies on: the rows are sorted, their entries are
  valid indices with their true distance, and every train row left out of a query's list is at
  least as far as every row in it.
\<close>

record dmatch =
  queryIdx :: nat
  trainIdx :: nat
  distance :: nat

type_synonym cand = "nat \<times> nat"

subsection \<open>The k-best insertion of \<^verbatim>\<open>batchDistance\<close>\<close>

fun knn_ins :: "cand \<Rightarrow> cand list \<Rightarrow> cand list" where
  "knn_ins x [] = [x]"
| "knn_ins x (y # ys) = (if fst x < fst y then x # y # ys else y # knn_ins x ys)"

definition knn_update :: "nat \<Rightarrow> cand list \<Rightarrow> cand \<Rightarrow> cand list" where
  "knn_update k best x =
     (if length best < k \<or> fst x < fst (last best) then take k (knn_ins x best) else best)"

definition knn_candidates :: "descriptor \<Rightarrow> descriptor list \<Rightarrow> cand list" where
  "knn_candidates q ts = map (\<lambda>j. (norm_hamming q (ts ! j), j)) [0..<length ts]"

definition knn_row :: "nat \<Rightarrow> descriptor \<Rightarrow> descriptor list \<Rightarrow> cand list" where
  "knn_row k q ts = foldl (knn_update k) [] (knn_candidates q ts)"

definition to_dmatches :: "nat \<Rightarrow> cand list \<Rightarrow> dmatch list" where
  "to_dmatches i cs = map (\<lambda>(d, j). \<lparr>queryIdx = i, trainIdx = j, distance = d\<rparr>) cs"

definition knn_match :: "nat \<Rightarrow> descriptor list \<Rightarrow> descriptor list \<Rightarrow> dmatch list list res" where
  "knn_match k qs ts =
     (if qs = [] then Inr []
      else if ts = [] then Inl (CvError EmptyTrainSet)
      else Inr (map (\<lambda>i. to_dmatches i (knn_row k (qs ! i) ts)) [0..<length qs]))"

text \<open>The reference: the \<open>k\<close> smallest candidates in (distance, index) order.\<close>

definition knn_spec :: "nat \<Rightarrow> descriptor \<Rightarrow> descriptor list \<Rightarrow> cand list" where
  "knn_spec k q ts = take k (sort (knn_candidates q ts))"

subsection \<open>Insertion after the equal distances is insertion in the lexicographic order\<close>

lemma knn_ins_insort:
  "\<forall>y \<in> set ys. snd y < snd x \<Longrightarrow> knn_ins x ys = insort x ys"
  by (induction ys) (auto simp: less_eq_prod_def)

lemma take_insort_take: "take k (insort x (take k xs)) = take k (insort (x :: 'a::linorder) xs)"
proof (induction xs arbitrary: k)
  case (Cons y ys)
  then show ?case
    by (cases k) (auto simp: take_Cons' split: if_splits)
qed simp

lemma take_insort_above:
  "sorted xs \<Longrightarrow> k \<le> length xs \<Longrightarrow> \<forall>y \<in> set (take k xs). y < x \<Longrightarrow> take k (insort (x :: 'a::linorder) xs) = take k xs"
proof (induction xs arbitrary: k)
  case (Cons y ys)
  then show ?case
    by (cases k) auto
qed simp

lemma sorted_le_last: "sorted xs \<Longrightarrow> y \<in> set xs \<Longrightarrow> y \<le> last (xs :: 'a::linorder list)"
proof (induction xs)
  case (Cons z zs)
  then show ?case by (cases zs) auto
qed simp

lemma knn_update_sort:
  assumes "\<forall>y \<in> set xs. snd y < snd x"
  shows "knn_update k (take k (sort xs)) x = take k (sort (xs @ [x]))"
proof -
  have sort_snoc: "sort (xs @ [x]) = insort x (sort xs)"
    by (rule properties_for_sort) (simp_all add: sorted_insort)
  have ins: "knn_ins x (take k (sort xs)) = insort x (take k (sort xs))"
    using assms set_take_subset[of k "sort xs"] by (intro knn_ins_insort) auto
  show ?thesis
  proof (cases "length (take k (sort xs)) < k \<or> fst x < fst (last (take k (sort xs)))")
    case True
    then show ?thesis
      by (simp add: knn_update_def ins take_insort_take sort_snoc)
  next
    case False
    then have full: "length (take k (sort xs)) = k" and
      far: "fst (last (take k (sort xs))) \<le> fst x" by auto
    show ?thesis
    proof (cases "k = 0")
      case True
      then show ?thesis by (simp add: knn_update_def)
    next
      case False
      with full have ne: "take k (sort xs) \<noteq> []" by (metis list.size(3))
      have "last (take k (sort xs)) \<in> set xs"
        using ne by (metis last_in_set in_set_takeD set_sort)
      with assms far have last_less: "last (take k (sort xs)) < x"
        by (cases x, cases "last (take k (sort xs))") auto
      have "\<forall>y \<in> set (take k (sort xs)). y < x"
      proof
        fix y assume "y \<in> set (take k (sort xs))"
        moreover have "sorted (take k (sort xs))" by (simp add: sorted_wrt_take)
        ultimately have "y \<le> last (take k (sort xs))" by (rule sorted_le_last[rotated])
        with last_less show "y < x" by (rule order.strict_trans1[rotated])
      qed
      then have "take k (insort x (sort xs)) = take k (sort xs)"
        using full by (intro take_insort_above) simp_all
      with \<open>\<not> (length (take k (sort xs)) < k \<or> _)\<close> show ?thesis
        by (simp add: knn_update_def sort_snoc)
    qed
  qed
qed

lemma foldl_knn_update:
  "sorted_wrt (<) (map snd (xs @ ys)) \<Longrightarrow>
   foldl (knn_update k) (take k (sort xs)) ys = take k (sort (xs @ ys))"
proof (induction ys arbitrary: xs)
  case (Cons y ys)
  have "\<forall>z \<in> set xs. snd z < snd y"
    using Cons.prems by (auto simp: sorted_wrt_append)
  then have "knn_update k (take k (sort xs)) y = take k (sort (xs @ [y]))"
    by (rule knn_update_sort)
  with Cons.IH[of "xs @ [y]"] Cons.prems show ?case by simp
qed simp

lemma knn_candidates_snd: "map snd (knn_candidates q ts) = [0..<length ts]"
  by (simp add: knn_candidates_def comp_def)

subsection \<open>The one-pass routine computes the reference\<close>

lemma knn_row_sort: "knn_row k q ts = take k (sort (knn_candidates q ts))"
proof -
  have "foldl (knn_update k) (take k (sort [])) (knn_candidates q ts) =
        take k (sort ([] @ knn_candidates q ts))"
    by (rule foldl_knn_update) (simp add: knn_candidates_snd)
  then show ?thesis by (simp add: knn_row_def)
qed

subsection \<open>Properties of the reference\<close>

lemma length_knn_candidates [simp]: "length (knn_candidates q ts) = length ts"
  by (simp add: knn_candidates_def)

lemma in_knn_candidates:
  "c \<in> set (knn_candidates q ts) \<longleftrightarrow> snd c < length ts \<and> fst c = norm_hamming q (ts ! snd c)"
  by (cases c) (auto simp: knn_candidates_def)

lemma distinct_knn_candidates: "distinct (map snd (knn_candidates q ts))"
  by (simp add: knn_candidates_snd)

lemma length_knn_spec [simp]: "length (knn_spec k q ts) = min k (length ts)"
  by (simp add: knn_spec_def)

lemma sorted_knn_spec: "sorted (knn_spec k q ts)"
  by (simp add: knn_spec_def sorted_wrt_take)

lemma knn_spec_entry:
  assumes "c \<in> set (knn_spec k q ts)"
  shows "snd c < length ts \<and> fst c = norm_hamming q (ts ! snd c)"
proof -
  have "c \<in> set (knn_candidates q ts)"
    using assms set_take_subset[of k "sort (knn_candidates q ts)"] by (auto simp: knn_spec_def)
  then show ?thesis by (simp add: in_knn_candidates)
qed

lemma knn_spec_left_out:
  assumes "j < length ts" and "(norm_hamming q (ts ! j), j) \<notin> set (knn_spec k q ts)"
    and "c \<in> set (knn_spec k q ts)"
  shows "c \<le> (norm_hamming q (ts ! j), j)"
proof -
  let ?S = "sort (knn_candidates q ts)"
  have "(norm_hamming q (ts ! j), j) \<in> set ?S"
    using assms(1) by (simp add: in_knn_candidates)
  then have "(norm_hamming q (ts ! j), j) \<in> set (drop k ?S)"
    using assms(2) by (metis append_take_drop_id Un_iff set_append knn_spec_def)
  moreover have "sorted (take k ?S @ drop k ?S)"
    by (simp only: append_take_drop_id) simp
  then have "\<forall>x\<in>set (take k ?S). \<forall>y\<in>set (drop k ?S). x \<le> y"
    unfolding sorted_append by blast
  ultimately show ?thesis
    using assms(3) by (simp add: knn_spec_def)
qed

lemma knn_spec_first_nearest:
  assumes "knn_spec k q ts = c # cs" and "j < length ts"
  shows "fst c \<le> norm_hamming q (ts ! j)"
proof (cases "(norm_hamming q (ts ! j), j) \<in> set (knn_spec k q ts)")
  case True
  then have "c \<le> (norm_hamming q (ts ! j), j)"
    using sorted_knn_spec[of k q ts] assms(1) by auto
  then show ?thesis by (cases c) auto
next
  case False
  then have "c \<le> (norm_hamming q (ts ! j), j)"
    using assms by (intro knn_spec_left_out[of j ts q k]) auto
  then show ?thesis by (cases c) auto
qed

subsection \<open>\<^verbatim>\<open>knnMatch\<close>\<close>

lemma knn_match_Inl:
  "knn_match k qs ts = Inl e \<longleftrightarrow> qs \<noteq> [] \<and> ts = [] \<and> e = CvError EmptyTrainSet"
  by (auto simp: knn_match_def)

lemma knn_match_Inr:
  assumes "knn_match k qs ts = Inr rows"
  shows "length rows = length qs"
    and "\<And>i. i < length qs \<Longrightarrow> rows ! i = to_dmatches i (knn_spec k (qs ! i) ts)"
  using assms by (auto simp: knn_match_def knn_row_sort knn_spec_def split: if_splits)

subsection \<open>Claims on \<^verbatim>\<open>knnMatch\<close>\<close>

text \<open>
  C6. The one-pass k-best insertion of \<^verbatim>\<open>batchDistance\<close> computes, for every query row,
  the first \<open>k\<close> train candidates in (distance, index) order: it equals the reference
  that sorts all candidates (ties keep the lower train index first).
\<close>

theorem knn_row_eq_spec: "knn_row k q ts = knn_spec k q ts"
  by (simp add: knn_row_sort knn_spec_def)

text \<open>
  C17. The first neighbour \<^verbatim>\<open>knnMatch\<close> returns for a query row is a nearest train row:
  a valid index, with its true Hamming distance, and no train row is closer.
\<close>

theorem knn_row_nearest:
  assumes "knn_row k q ts = c # cs" and "j < length ts"
  shows "snd c < length ts \<and> fst c = norm_hamming q (ts ! snd c)
         \<and> fst c \<le> norm_hamming q (ts ! j)"
proof -
  have spec: "knn_spec k q ts = c # cs"
    using assms(1) by (simp add: knn_row_sort knn_spec_def)
  then have "c \<in> set (knn_spec k q ts)" by simp
  with spec assms(2) show ?thesis
    using knn_spec_entry knn_spec_first_nearest by blast
qed

theorem knn_row_nearest_witness:
  "knn_row 2 [7] [[0], [255], [3]] = [(1, 2), (3, 0)] \<and> 1 < length [[0::byte], [255], [3]]
   \<and> snd (1::nat, 2::nat) < length [[0::byte], [255], [3]]
   \<and> fst (1::nat, 2::nat) \<le> norm_hamming [7] ([[0], [255], [3]] ! 1)"
proof -
  have run: "knn_row 2 [7] [[0], [255], [3]] = [(1, 2), (3, 0)]" by code_simp
  have j: "1 < length [[0::byte], [255], [3]]" by simp
  show ?thesis using run j knn_row_nearest[OF run j] by blast
qed

text \<open>
  C18. \<^verbatim>\<open>knnMatch\<close> gives every query row \<open>min k n\<close> neighbours for \<open>n\<close> train rows,
  nearest first: a query gets fewer than \<open>k\<close> neighbours exactly when the train set has
  fewer than \<open>k\<close> rows.
\<close>

theorem knn_row_shape:
  "length (knn_row k q ts) = min k (length ts) \<and> sorted (map fst (knn_row k q ts))"
proof -
  have "sorted_wrt (\<lambda>x y. fst x \<le> fst y) (knn_spec k q ts)"
    using sorted_knn_spec[of k q ts]
    by (rule sorted_wrt_mono_rel[rotated]) (auto simp: less_eq_prod_def)
  then have "sorted (map fst (knn_spec k q ts))"
    by (simp add: sorted_wrt_map)
  then show ?thesis by (simp add: knn_row_sort knn_spec_def[symmetric])
qed

end
