(* ===== verification/Matcher.thy ===== *)
theory Matcher
  imports Knn
begin

text \<open>
  \<^verbatim>\<open>match_orb_features\<close> (\<^verbatim>\<open>src/cv_task_handenur.py\<close>, lines 34--41): the two nearest
  train rows of every query row (\<^verbatim>\<open>knnMatch\<close>, theory \<open>Knn\<close>), then Lowe's ratio test
  in a \<^verbatim>\<open>for m, n in matches\<close> loop. The unpacking \<^verbatim>\<open>m, n\<close> raises
  \<^verbatim>\<open>ValueError\<close> on a list that does not have exactly two entries, which is what
  \<^verbatim>\<open>knnMatch\<close> returns for every query when the train set has a single row.
  The literal \<^verbatim>\<open>0.7\<close> is the IEEE double nearest to 7/10, written out exactly as
  \<open>lowe_ratio\<close>; on Hamming distances below \<open>2^51\<close> the test is \<open>10 d\<^sub>1 < 7 d\<^sub>2\<close>.
  The theory characterises every outcome of the function and proves it refines an abstract
  matcher, whose matches are the unique nearest train rows with the ratio margin.
\<close>

definition lowe_ratio :: real where
  "lowe_ratio = 3152519739159347 / 4503599627370496"

definition lowe_test :: "dmatch \<Rightarrow> dmatch \<Rightarrow> bool" where
  "lowe_test m n \<longleftrightarrow> real (distance m) < lowe_ratio * real (distance n)"

fun ratio_loop :: "dmatch list \<Rightarrow> dmatch list list \<Rightarrow> dmatch list res" where
  "ratio_loop good [] = Inr good"
| "ratio_loop good ([m, n] # rows) = ratio_loop (if lowe_test m n then good @ [m] else good) rows"
| "ratio_loop good (_ # rows) = Inl ValueError"

definition match_orb_features :: "descriptor list \<Rightarrow> descriptor list \<Rightarrow> dmatch list res" where
  "match_orb_features descriptor1 descriptor2 =
     res_bind (knn_match 2 descriptor1 descriptor2) (ratio_loop [])"

subsection \<open>The abstract matcher\<close>

definition lowe_accepts :: "descriptor \<Rightarrow> descriptor list \<Rightarrow> bool" where
  "lowe_accepts q ts =
     (let c = knn_spec 2 q ts in real (fst (c ! 0)) < lowe_ratio * real (fst (c ! 1)))"

definition match_spec :: "descriptor list \<Rightarrow> descriptor list \<Rightarrow> dmatch list" where
  "match_spec qs ts =
     map (\<lambda>i. let c = knn_spec 2 (qs ! i) ts ! 0
             in \<lparr>queryIdx = i, trainIdx = snd c, distance = fst c\<rparr>)
         (filter (\<lambda>i. lowe_accepts (qs ! i) ts) [0..<length qs])"

subsection \<open>The double constant \<^verbatim>\<open>0.7\<close>\<close>

lemma lowe_ratio_pos: "0 < lowe_ratio"
  by (simp add: lowe_ratio_def)

lemma lowe_ratio_nat:
  assumes "n < 2 ^ 51"
  shows "real m < lowe_ratio * real n \<longleftrightarrow> 10 * m < 7 * n"
proof -
  have "real m < lowe_ratio * real n \<longleftrightarrow>
        4503599627370496 * real m < 3152519739159347 * real n"
    by (simp add: lowe_ratio_def field_simps)
  also have "\<dots> \<longleftrightarrow> 4503599627370496 * m < 3152519739159347 * n"
    using of_nat_less_iff[of "4503599627370496 * m" "3152519739159347 * n", where 'a = real]
    by simp
  also have "\<dots> \<longleftrightarrow> 10 * m < 7 * n"
    using assms by simp arith
  finally show ?thesis .
qed

subsection \<open>The loop\<close>

lemma ratio_loop_eq:
  "ratio_loop good rows =
     (if list_all (\<lambda>r. length r = 2) rows
      then Inr (good @ map hd (filter (\<lambda>r. lowe_test (r ! 0) (r ! 1)) rows))
      else Inl ValueError)"
proof (induction good rows rule: ratio_loop.induct)
  case (2 good m n rows)
  then show ?case by (simp add: numeral_2_eq_2)
qed (simp_all add: numeral_2_eq_2)

subsection \<open>Every outcome of \<^verbatim>\<open>match_orb_features\<close>\<close>

lemma knn_spec_two:
  "2 \<le> length ts \<Longrightarrow> \<exists>c0 c1. knn_spec 2 q ts = [c0, c1]"
  using length_knn_spec[of 2 q ts]
  by (cases "knn_spec 2 q ts" rule: remdups_adj.cases) (auto simp: min_def)

lemma ratio_loop_rows:
  assumes "2 \<le> length ts"
  shows "ratio_loop [] (map (\<lambda>i. to_dmatches i (knn_spec 2 (qs ! i) ts)) [0..<length qs])
         = Inr (match_spec qs ts)"
proof -
  let ?row = "\<lambda>i. to_dmatches i (knn_spec 2 (qs ! i) ts)"
  have two: "length (?row i) = 2" for i using assms by (simp add: to_dmatches_def)
  have test: "lowe_test (?row i ! 0) (?row i ! 1) = lowe_accepts (qs ! i) ts" for i
    using knn_spec_two[OF assms, of "qs ! i"]
    by (auto simp: to_dmatches_def lowe_test_def lowe_accepts_def split: prod.splits)
  have hd: "hd (?row i) = (let c = knn_spec 2 (qs ! i) ts ! 0
                          in \<lparr>queryIdx = i, trainIdx = snd c, distance = fst c\<rparr>)" for i
    using knn_spec_two[OF assms, of "qs ! i"] by (auto simp: to_dmatches_def split: prod.splits)
  have "filter (\<lambda>r. lowe_test (r ! 0) (r ! 1)) (map ?row [0..<length qs]) =
        map ?row (filter (\<lambda>i. lowe_accepts (qs ! i) ts) [0..<length qs])"
    by (simp only: filter_map comp_def test)
  then show ?thesis
    using two by (simp add: ratio_loop_eq list_all_iff comp_def hd match_spec_def)
qed

lemma match_orb_features_eq:
  "match_orb_features qs ts =
     (if qs = [] then Inr []
      else if ts = [] then Inl (CvError EmptyTrainSet)
      else if length ts = 1 then Inl ValueError
      else Inr (match_spec qs ts))"
proof (cases "qs = [] \<or> ts = []")
  case True
  then show ?thesis by (auto simp: match_orb_features_def knn_match_def)
next
  case False
  then have rows: "knn_match 2 qs ts = Inr (map (\<lambda>i. to_dmatches i (knn_spec 2 (qs ! i) ts)) [0..<length qs])"
    by (simp add: knn_match_def knn_row_sort knn_spec_def)
  show ?thesis
  proof (cases "length ts = 1")
    case True
    with False have "\<exists>r \<in> set (map (\<lambda>i. to_dmatches i (knn_spec 2 (qs ! i) ts)) [0..<length qs]).
                       length r \<noteq> 2"
      by (auto simp: to_dmatches_def intro: bexI[of _ 0])
    with True False rows show ?thesis
      by (auto simp: match_orb_features_def ratio_loop_eq list_all_iff)
  next
    case False
    moreover have "length ts \<noteq> 0" using \<open>\<not> (qs = [] \<or> ts = [])\<close> by simp
    ultimately have "2 \<le> length ts" by arith
    with rows False \<open>\<not> (qs = [] \<or> ts = [])\<close> show ?thesis
      by (simp add: match_orb_features_def ratio_loop_rows)
  qed
qed

lemma length_less_2_iff: "length xs < 2 \<longleftrightarrow> xs = [] \<or> length xs = 1"
  by (cases xs) auto

lemma match_orb_features_Inr:
  "match_orb_features qs ts = Inr good \<Longrightarrow>
   (qs = [] \<and> good = []) \<or> (2 \<le> length ts \<and> good = match_spec qs ts)"
  using length_less_2_iff[of ts]
  by (auto simp: match_orb_features_eq not_less[symmetric] split: if_splits)

subsection \<open>Properties of the abstract matcher\<close>

lemma match_spec_unique_nearest:
  assumes "2 \<le> length ts" and "m \<in> set (match_spec qs ts)"
  shows "queryIdx m < length qs \<and> trainIdx m < length ts
         \<and> distance m = norm_hamming (qs ! queryIdx m) (ts ! trainIdx m)
         \<and> (\<forall>j < length ts. j \<noteq> trainIdx m \<longrightarrow>
               real (distance m) < lowe_ratio * real (norm_hamming (qs ! queryIdx m) (ts ! j)))"
proof -
  from assms(2) obtain i where i: "i < length qs" "lowe_accepts (qs ! i) ts"
    and m: "m = (let c = knn_spec 2 (qs ! i) ts ! 0
                 in \<lparr>queryIdx = i, trainIdx = snd c, distance = fst c\<rparr>)"
    by (auto simp: match_spec_def)
  obtain c0 c1 where c: "knn_spec 2 (qs ! i) ts = [c0, c1]"
    using knn_spec_two[OF assms(1)] by blast
  have c0: "snd c0 < length ts \<and> fst c0 = norm_hamming (qs ! i) (ts ! snd c0)"
    using knn_spec_entry[of c0 2 "qs ! i" ts] c by simp
  have ratio: "real (fst c0) < lowe_ratio * real (fst c1)"
    using i(2) c by (simp add: lowe_accepts_def)
  have far: "real (fst c0) < lowe_ratio * real (norm_hamming (qs ! i) (ts ! j))"
    if j: "j < length ts" "j \<noteq> snd c0" for j
  proof -
    have "fst c1 \<le> norm_hamming (qs ! i) (ts ! j)"
    proof (cases "(norm_hamming (qs ! i) (ts ! j), j) = c1")
      case True
      then show ?thesis by auto
    next
      case False
      with j c have "(norm_hamming (qs ! i) (ts ! j), j) \<notin> set (knn_spec 2 (qs ! i) ts)"
        by auto
      with j(1) c have "c1 \<le> (norm_hamming (qs ! i) (ts ! j), j)"
        by (intro knn_spec_left_out[of j ts "qs ! i" 2 c1]) auto
      then show ?thesis by (cases c1) auto
    qed
    then have "lowe_ratio * real (fst c1) \<le> lowe_ratio * real (norm_hamming (qs ! i) (ts ! j))"
      using lowe_ratio_pos by simp
    with ratio show ?thesis by linarith
  qed
  show ?thesis
    using i(1) c0 far by (simp add: m c)
qed

lemma match_spec_query_order:
  "sorted_wrt (<) (map queryIdx (match_spec qs ts)) \<and> length (match_spec qs ts) \<le> length qs"
proof
  have "map queryIdx (match_spec qs ts) = filter (\<lambda>i. lowe_accepts (qs ! i) ts) [0..<length qs]"
    by (simp add: match_spec_def comp_def Let_def)
  then show "sorted_wrt (<) (map queryIdx (match_spec qs ts))"
    by (metis sorted_wrt_filter sorted_wrt_upt)
  show "length (match_spec qs ts) \<le> length qs"
    by (simp add: match_spec_def) (metis length_filter_le length_upt minus_nat.diff_0)
qed

subsection \<open>Claims on \<^verbatim>\<open>match_orb_features\<close>\<close>

text \<open>
  C1. Every match \<^verbatim>\<open>match_orb_features\<close> returns pairs a query row with a train row
  (valid indices, true Hamming distance) that is strictly nearer, by the ratio \<^verbatim>\<open>0.7\<close>,
  than every other train row: no accepted match has a best/second-best ratio of 0.7 or more,
  and the accepted neighbour is unambiguous.
\<close>

theorem match_orb_features_unique_nearest:
  assumes "match_orb_features qs ts = Inr good" and "m \<in> set good"
  shows "queryIdx m < length qs \<and> trainIdx m < length ts
         \<and> distance m = norm_hamming (qs ! queryIdx m) (ts ! trainIdx m)
         \<and> (\<forall>j < length ts. j \<noteq> trainIdx m \<longrightarrow>
               real (distance m) < lowe_ratio * real (norm_hamming (qs ! queryIdx m) (ts ! j)))"
  using match_orb_features_Inr[OF assms(1)] assms(2)
  by (auto dest: match_spec_unique_nearest)

theorem match_orb_features_unique_nearest_witness:
  "match_orb_features [[0], [7]] [[0], [255], [3]] =
     Inr [\<lparr>queryIdx = 0, trainIdx = 0, distance = 0\<rparr>, \<lparr>queryIdx = 1, trainIdx = 2, distance = 1\<rparr>]
   \<and> real (distance \<lparr>queryIdx = 1, trainIdx = 2, distance = 1\<rparr>) < lowe_ratio *
       real (norm_hamming ([[0::byte], [7]] ! queryIdx \<lparr>queryIdx = 1, trainIdx = 2, distance = 1\<rparr>)
                          ([[0], [255], [3]] ! 0))"
proof -
  have run: "match_orb_features [[0], [7]] [[0], [255], [3]] =
     Inr [\<lparr>queryIdx = 0, trainIdx = 0, distance = 0\<rparr>, \<lparr>queryIdx = 1, trainIdx = 2, distance = 1\<rparr>]"
    by code_simp
  have mem: "\<lparr>queryIdx = 1, trainIdx = 2, distance = 1\<rparr> \<in>
        set [\<lparr>queryIdx = 0, trainIdx = 0, distance = 0\<rparr>, \<lparr>queryIdx = 1, trainIdx = 2, distance = 1\<rparr>]"
    by simp
  have j: "0 < length [[0::byte], [255], [3]]" "0 \<noteq> trainIdx \<lparr>queryIdx = 1, trainIdx = 2, distance = 1\<rparr>"
    by simp_all
  show ?thesis using run j match_orb_features_unique_nearest[OF run mem] by blast
qed

text \<open>
  C2. \<^verbatim>\<open>match_orb_features\<close> fails exactly when there are query rows and fewer than two
  train rows: with no train row \<^verbatim>\<open>knnMatch\<close> raises \<^verbatim>\<open>cv2.error\<close>; with one, every
  query gets a single neighbour and the unpacking \<^verbatim>\<open>for m, n in matches\<close> raises
  \<^verbatim>\<open>ValueError\<close>. Such queries are not silently dropped.
\<close>

theorem match_orb_features_error:
  "match_orb_features qs ts = Inl e \<longleftrightarrow>
     qs \<noteq> [] \<and> length ts < 2 \<and> e = (if ts = [] then CvError EmptyTrainSet else ValueError)"
  using length_less_2_iff[of ts] by (auto simp: match_orb_features_eq)

text \<open>
  C7. With at least two train rows, \<^verbatim>\<open>match_orb_features\<close> returns exactly the abstract
  matcher's result: for each query row in order, its nearest train row, kept when the nearest
  distance is below 0.7 times the second nearest.
\<close>

theorem match_orb_features_refines:
  "2 \<le> length ts \<Longrightarrow> match_orb_features qs ts = Inr (match_spec qs ts)"
  using length_less_2_iff[of ts] by (simp add: match_orb_features_eq match_spec_def)

theorem match_orb_features_refines_witness:
  "2 \<le> length [[0::byte], [255]] \<and>
   match_orb_features [[1], [254]] [[0], [255]] = Inr (match_spec [[1], [254]] [[0], [255]])"
  using match_orb_features_refines[of "[[0::byte], [255]]" "[[1], [254]]"] by simp

text \<open>
  C15. The matches come in query order, at most one per query row: their query indices are
  strictly increasing, so there are never more matches than query descriptors.
\<close>

theorem match_orb_features_query_order:
  assumes "match_orb_features qs ts = Inr good"
  shows "sorted_wrt (<) (map queryIdx good) \<and> length good \<le> length qs"
  using match_orb_features_Inr[OF assms] match_spec_query_order[of qs ts] by auto

theorem match_orb_features_query_order_witness:
  "match_orb_features [[0], [7]] [[0], [255], [3]] =
     Inr [\<lparr>queryIdx = 0, trainIdx = 0, distance = 0\<rparr>, \<lparr>queryIdx = 1, trainIdx = 2, distance = 1\<rparr>]
   \<and> sorted_wrt (<) [0::nat, 1] \<and> length [0::nat, 1] \<le> length [[0::byte], [7]]"
proof -
  have run: "match_orb_features [[0], [7]] [[0], [255], [3]] =
     Inr [\<lparr>queryIdx = 0, trainIdx = 0, distance = 0\<rparr>, \<lparr>queryIdx = 1, trainIdx = 2, distance = 1\<rparr>]"
    by code_simp
  from match_orb_features_query_order[OF run] run show ?thesis by simp
qed

text \<open>
  C16. The literal \<^verbatim>\<open>0.7\<close> is the double \<open>3152519739159347 / 2^52\<close>, slightly below
  7/10; on whole distances below \<open>2^51\<close> (a Hamming distance of 32-byte ORB rows is at
  most 256) the ratio test \<^verbatim>\<open>m.distance < 0.7 * n.distance\<close> is exactly
  \<open>10 m < 7 n\<close>.
\<close>

theorem lowe_test_exact:
  "distance n < 2 ^ 51 \<Longrightarrow> lowe_test m n \<longleftrightarrow> 10 * distance m < 7 * distance n"
  by (simp add: lowe_test_def lowe_ratio_nat)

theorem lowe_test_exact_witness:
  "distance \<lparr>queryIdx = 0, trainIdx = 1, distance = 10\<rparr> < 2 ^ 51 \<and>
   \<not> lowe_test \<lparr>queryIdx = 0, trainIdx = 0, distance = 7\<rparr> \<lparr>queryIdx = 0, trainIdx = 1, distance = 10\<rparr>"
  using lowe_test_exact[of "\<lparr>queryIdx = 0, trainIdx = 1, distance = 10\<rparr>"
                           "\<lparr>queryIdx = 0, trainIdx = 0, distance = 7\<rparr>"]
  by simp

end
