(* ===== verification/Geometry.thy ===== *)
theory Geometry
  imports Prelude
begin

text \<open>
  Images, points and the projective transform of \<^verbatim>\<open>draw_corner_coordinates\<close>
  (\<^verbatim>\<open>src/cv_task_handenur.py\<close>, lines 64--75). A grayscale image is its shape
  (\<^verbatim>\<open>img.shape = (rows, cols)\<close>) and its pixel rows. The query's corner array is built
  from the shape (lines 65--73) and mapped by \<^verbatim>\<open>cv2.perspectiveTransform\<close> (line 75),
  modelled as OpenCV computes it for two-dimensional points: the third homogeneous coordinate
  \<open>w\<close> is inverted when \<open>|w| > FLT_EPSILON\<close>, and otherwise the point becomes
  \<open>(0, 0)\<close> without any error. Points are real numbers; the float32 rounding of the arrays
  is not modelled. Proved: the identity and translations act as expected on the corners,
  the transform of a product is the composition of the transforms where no \<open>w\<close> is
  near zero, a multiple of a homography maps points alike where both pass the guard, and a
  near-zero \<open>w\<close> silently yields the origin.
\<close>

record gray_image =
  img_rows :: nat
  img_cols :: nat
  pixels :: "8 word list list"

type_synonym point = "real \<times> real"

record homography =
  h00 :: real  h01 :: real  h02 :: real
  h10 :: real  h11 :: real  h12 :: real
  h20 :: real  h21 :: real  h22 :: real

definition flt_epsilon :: real where
  "flt_epsilon = 1 / 2 ^ 23"

definition hom_u :: "homography \<Rightarrow> point \<Rightarrow> real" where
  "hom_u H p = h00 H * fst p + h01 H * snd p + h02 H"

definition hom_v :: "homography \<Rightarrow> point \<Rightarrow> real" where
  "hom_v H p = h10 H * fst p + h11 H * snd p + h12 H"

definition hom_w :: "homography \<Rightarrow> point \<Rightarrow> real" where
  "hom_w H p = h20 H * fst p + h21 H * snd p + h22 H"

definition perspective_point :: "homography \<Rightarrow> point \<Rightarrow> point" where
  "perspective_point H p =
     (let w = hom_w H p
      in if flt_epsilon < \<bar>w\<bar> then (let w' = 1 / w in (hom_u H p * w', hom_v H p * w'))
         else (0, 0))"

definition perspective_transform :: "point list \<Rightarrow> homography option \<Rightarrow> point list res" where
  "perspective_transform src m =
     (case m of None \<Rightarrow> Inl (CvError NoTransform) | Some H \<Rightarrow> Inr (map (perspective_point H) src))"

definition obj_corners :: "gray_image \<Rightarrow> point list" where
  "obj_corners query_image =
     [(0, 0),
      (real (img_cols query_image), 0),
      (real (img_cols query_image), real (img_rows query_image)),
      (0, real (img_rows query_image))]"

subsection \<open>Particular homographies\<close>

definition hom_id :: homography where
  "hom_id = \<lparr>h00 = 1, h01 = 0, h02 = 0, h10 = 0, h11 = 1, h12 = 0, h20 = 0, h21 = 0, h22 = 1\<rparr>"

definition hom_translate :: "real \<Rightarrow> real \<Rightarrow> homography" where
  "hom_translate dx dy =
     \<lparr>h00 = 1, h01 = 0, h02 = dx, h10 = 0, h11 = 1, h12 = dy, h20 = 0, h21 = 0, h22 = 1\<rparr>"

definition hom_mult :: "homography \<Rightarrow> homography \<Rightarrow> homography" where
  "hom_mult A B = \<lparr>
     h00 = h00 A * h00 B + h01 A * h10 B + h02 A * h20 B,
     h01 = h00 A * h01 B + h01 A * h11 B + h02 A * h21 B,
     h02 = h00 A * h02 B + h01 A * h12 B + h02 A * h22 B,
     h10 = h10 A * h00 B + h11 A * h10 B + h12 A * h20 B,
     h11 = h10 A * h01 B + h11 A * h11 B + h12 A * h21 B,
     h12 = h10 A * h02 B + h11 A * h12 B + h12 A * h22 B,
     h20 = h20 A * h00 B + h21 A * h10 B + h22 A * h20 B,
     h21 = h20 A * h01 B + h21 A * h11 B + h22 A * h21 B,
     h22 = h20 A * h02 B + h21 A * h12 B + h22 A * h22 B\<rparr>"

text \<open>A homography multiplied by a scalar: the same projective map.\<close>

definition hom_scale :: "real \<Rightarrow> homography \<Rightarrow> homography" where
  "hom_scale c H = \<lparr>
     h00 = c * h00 H, h01 = c * h01 H, h02 = c * h02 H,
     h10 = c * h10 H, h11 = c * h11 H, h12 = c * h12 H,
     h20 = c * h20 H, h21 = c * h21 H, h22 = c * h22 H\<rparr>"

subsection \<open>The projective division\<close>

lemma flt_epsilon_pos [simp]: "0 < flt_epsilon" "0 \<le> flt_epsilon"
  by (simp_all add: flt_epsilon_def)

lemma flt_epsilon_lt_1 [simp]: "flt_epsilon < 1"
  by (simp add: flt_epsilon_def)

lemma perspective_point_proj:
  "flt_epsilon < \<bar>hom_w H p\<bar> \<Longrightarrow>
   perspective_point H p = (hom_u H p / hom_w H p, hom_v H p / hom_w H p)"
  by (simp add: perspective_point_def Let_def)

lemma perspective_point_affine:
  "h20 H = 0 \<Longrightarrow> h21 H = 0 \<Longrightarrow> h22 H = 1 \<Longrightarrow>
   perspective_point H p = (hom_u H p, hom_v H p)"
  by (simp add: perspective_point_proj hom_w_def)

lemma hom_mult_uvw:
  "hom_u (hom_mult A B) p = h00 A * hom_u B p + h01 A * hom_v B p + h02 A * hom_w B p"
  "hom_v (hom_mult A B) p = h10 A * hom_u B p + h11 A * hom_v B p + h12 A * hom_w B p"
  "hom_w (hom_mult A B) p = h20 A * hom_u B p + h21 A * hom_v B p + h22 A * hom_w B p"
  by (simp_all add: hom_u_def hom_v_def hom_w_def hom_mult_def algebra_simps)

lemma hom_uvw_scale:
  assumes "w \<noteq> 0"
  shows "hom_u A (u / w, v / w) = (h00 A * u + h01 A * v + h02 A * w) / w"
    and "hom_v A (u / w, v / w) = (h10 A * u + h11 A * v + h12 A * w) / w"
    and "hom_w A (u / w, v / w) = (h20 A * u + h21 A * v + h22 A * w) / w"
  using assms by (simp_all add: hom_u_def hom_v_def hom_w_def field_simps)

lemma hom_scale_uvw [simp]:
  "hom_u (hom_scale c H) p = c * hom_u H p"
  "hom_v (hom_scale c H) p = c * hom_v H p"
  "hom_w (hom_scale c H) p = c * hom_w H p"
  by (simp_all add: hom_scale_def hom_u_def hom_v_def hom_w_def algebra_simps)

lemma perspective_translate [simp]:
  "perspective_point (hom_translate dx dy) (x, y) = (x + dx, y + dy)"
  by (simp add: perspective_point_affine hom_translate_def hom_u_def hom_v_def)

lemma perspective_id [simp]: "perspective_point hom_id p = p"
  by (cases p) (simp add: perspective_point_affine hom_id_def hom_u_def hom_v_def)

lemma perspective_transform_Some [simp]:
  "perspective_transform src (Some H) = Inr (map (perspective_point H) src)"
  by (simp add: perspective_transform_def)

lemma perspective_transform_None [simp]:
  "perspective_transform src None = Inl (CvError NoTransform)"
  by (simp add: perspective_transform_def)

lemma length_obj_corners [simp]: "length (obj_corners q) = 4"
  by (simp add: obj_corners_def)

subsection \<open>Claims on the projective transform\<close>


text \<open>
  C20. Where no third coordinate is within \<^verbatim>\<open>FLT_EPSILON\<close> of zero, transforming by a
  product of homographies is transforming by each in turn; the guard is needed, since the
  transform sends a point with a near-zero third coordinate to the origin.
\<close>

theorem perspective_mult:
  assumes "flt_epsilon < \<bar>hom_w B p\<bar>" and "flt_epsilon < \<bar>hom_w A (perspective_point B p)\<bar>"
    and "flt_epsilon < \<bar>hom_w (hom_mult A B) p\<bar>"
  shows "perspective_point (hom_mult A B) p = perspective_point A (perspective_point B p)"
proof -
  let ?u = "hom_u B p" and ?v = "hom_v B p" and ?w = "hom_w B p"
  have w0: "?w \<noteq> 0" using assms(1) by (metis abs_zero order.asym flt_epsilon_pos(1))
  have pB: "perspective_point B p = (?u / ?w, ?v / ?w)"
    using assms(1) by (rule perspective_point_proj)
  have wAB: "hom_w (hom_mult A B) p \<noteq> 0"
    using assms(3) by (metis abs_zero order.asym flt_epsilon_pos(1))
  have "perspective_point A (?u / ?w, ?v / ?w) =
        (hom_u A (?u / ?w, ?v / ?w) / hom_w A (?u / ?w, ?v / ?w),
         hom_v A (?u / ?w, ?v / ?w) / hom_w A (?u / ?w, ?v / ?w))"
    using assms(2) pB by (intro perspective_point_proj) simp
  also have "\<dots> = (hom_u (hom_mult A B) p / hom_w (hom_mult A B) p,
                    hom_v (hom_mult A B) p / hom_w (hom_mult A B) p)"
    using w0 wAB by (simp add: hom_uvw_scale hom_mult_uvw)
  also have "\<dots> = perspective_point (hom_mult A B) p"
    using assms(3) by (simp add: perspective_point_proj)
  finally show ?thesis by (simp add: pB)
qed

theorem perspective_mult_witness:
  "flt_epsilon < \<bar>hom_w (hom_translate 1 2) (0, 0)\<bar>
   \<and> flt_epsilon < \<bar>hom_w (hom_translate 3 4) (perspective_point (hom_translate 1 2) (0, 0))\<bar>
   \<and> flt_epsilon < \<bar>hom_w (hom_mult (hom_translate 3 4) (hom_translate 1 2)) (0, 0)\<bar>
   \<and> perspective_point (hom_mult (hom_translate 3 4) (hom_translate 1 2)) (0, 0) = (4, 6)"
proof -
  have h: "flt_epsilon < \<bar>hom_w (hom_translate 1 2) (0, 0)\<bar>"
    "flt_epsilon < \<bar>hom_w (hom_translate 3 4) (perspective_point (hom_translate 1 2) (0, 0))\<bar>"
    "flt_epsilon < \<bar>hom_w (hom_mult (hom_translate 3 4) (hom_translate 1 2)) (0, 0)\<bar>"
    by (simp_all add: hom_w_def hom_translate_def hom_mult_def)
  from perspective_mult[OF h] h show ?thesis by simp
qed

text \<open>
  C35. A homography is determined only up to a scalar, and \<^verbatim>\<open>perspectiveTransform\<close>
  respects this wherever the guard passes for both matrices. The guard itself is not scale
  invariant: the same point can be mapped by \<open>H\<close> and sent to the origin by a small
  multiple of \<open>H\<close> (\<open>perspective_scale_guard\<close>), so whether a corner is silently replaced
  by the origin depends on the normalisation of the fitted matrix (\<^verbatim>\<open>findHomography\<close>
  returns \<open>h22 = 1\<close>).
\<close>

theorem perspective_point_scale:
  assumes "flt_epsilon < \<bar>hom_w H p\<bar>" and "flt_epsilon < \<bar>c * hom_w H p\<bar>"
  shows "perspective_point (hom_scale c H) p = perspective_point H p"
proof -
  have "c \<noteq> 0" using assms(2) by (metis abs_zero mult_zero_left order.asym flt_epsilon_pos(1))
  then show ?thesis using assms by (simp add: perspective_point_proj)
qed

theorem perspective_point_scale_witness:
  "flt_epsilon < \<bar>hom_w hom_id (3, 4)\<bar> \<and> flt_epsilon < \<bar>2 * hom_w hom_id (3, 4)\<bar> \<and>
   perspective_point (hom_scale 2 hom_id) (3, 4) = (3, 4)"
proof -
  have h: "flt_epsilon < \<bar>hom_w hom_id (3, 4)\<bar>" "flt_epsilon < \<bar>2 * hom_w hom_id (3, 4)\<bar>"
    by (simp_all add: hom_w_def hom_id_def flt_epsilon_def)
  from perspective_point_scale[OF h] h show ?thesis by simp
qed

lemma perspective_scale_guard:
  "perspective_point hom_id (3, 4) = (3, 4) \<and> perspective_point (hom_scale (1 / 2 ^ 24) hom_id) (3, 4) = (0, 0)"
  by (simp add: perspective_point_def hom_u_def hom_v_def hom_w_def hom_id_def hom_scale_def flt_epsilon_def)

end
