(* ===== verification/Render.thy ===== *)
theory Render
  imports Knn Geometry
begin

text \<open>
  What \<^verbatim>\<open>draw_corner_coordinates\<close> draws (\<^verbatim>\<open>src/cv_task_handenur.py\<close>, lines 46--50
  and 78--105). The canvas is the array \<^verbatim>\<open>np.empty\<close> allocates: its shape, what has
  been drawn into it, and the markers on it; pixel values are not modelled.
  \<^verbatim>\<open>cv2.drawMatches\<close> is called with that array as \<^verbatim>\<open>outImg\<close> and its result is
  discarded, so the drawing reaches \<^verbatim>\<open>img_matches\<close> only because OpenCV writes in place
  when the array already has the shape it needs (rows: the larger height; columns: the two
  widths; three channels); with any other shape it allocates a new array and
  \<^verbatim>\<open>img_matches\<close> keeps its uninitialised contents. \<^verbatim>\<open>drawMatches\<close> asserts that every
  match's indices are valid key-point indices (\<^verbatim>\<open>cv2.error\<close> otherwise); it draws, per
  match, a segment from the query key point to the main image's key point shifted right by the
  query's width (\<^verbatim>\<open>NOT_DRAW_SINGLE_POINTS\<close>: unmatched key points are not drawn).
  \<open>draw_matches\<close> therefore returns the array passed as \<^verbatim>\<open>outImg\<close> as it is
  after the call, not OpenCV's return value. \<^verbatim>\<open>cv2.drawMarker\<close> draws in place and
  returns the same array.
\<close>

record keypoint =
  pt :: point
  kp_size :: real
  angle :: real
  response :: real
  octave :: int
  class_id :: int

datatype marker_type =
    MARKER_CROSS | MARKER_TILTED_CROSS | MARKER_STAR | MARKER_DIAMOND
  | MARKER_SQUARE | MARKER_TRIANGLE_UP | MARKER_TRIANGLE_DOWN

datatype line_type = FILLED | LINE_4 | LINE_8 | LINE_AA

record marker =
  position :: "int \<times> int"
  color :: "nat \<times> nat \<times> nat"
  marker_kind :: marker_type
  marker_size :: nat
  thickness :: nat
  line_kind :: line_type

datatype canvas_content =
    Uninitialised
  | MatchesDrawn gray_image gray_image "(point \<times> point) list"

record canvas =
  c_rows :: nat
  c_cols :: nat
  c_chans :: nat
  content :: canvas_content
  markers :: "marker list"

definition np_empty :: "nat \<times> nat \<times> nat \<Rightarrow> canvas" where
  "np_empty shape =
     (case shape of (r, c, ch) \<Rightarrow>
        \<lparr>c_rows = r, c_cols = c, c_chans = ch, content = Uninitialised, markers = []\<rparr>)"

definition match_segments ::
  "gray_image \<Rightarrow> keypoint list \<Rightarrow> keypoint list \<Rightarrow> dmatch list \<Rightarrow> (point \<times> point) list" where
  "match_segments img1 keypoints1 keypoints2 matches1to2 =
     map (\<lambda>m. (pt (keypoints1 ! queryIdx m),
               (fst (pt (keypoints2 ! trainIdx m)) + real (img_cols img1),
                snd (pt (keypoints2 ! trainIdx m)))))
         matches1to2"

definition draw_matches ::
  "gray_image \<Rightarrow> keypoint list \<Rightarrow> gray_image \<Rightarrow> keypoint list \<Rightarrow> dmatch list \<Rightarrow> canvas \<Rightarrow> canvas res"
where
  "draw_matches img1 keypoints1 img2 keypoints2 matches1to2 outImg =
     (if list_ex (\<lambda>m. length keypoints1 \<le> queryIdx m \<or> length keypoints2 \<le> trainIdx m) matches1to2
      then Inl (CvError BadMatchIndex)
      else if (c_rows outImg, c_cols outImg, c_chans outImg) =
              (max (img_rows img1) (img_rows img2), img_cols img1 + img_cols img2, 3)
      then Inr (outImg\<lparr>content := MatchesDrawn img1 img2
                                    (match_segments img1 keypoints1 keypoints2 matches1to2),
                       markers := []\<rparr>)
      else Inr outImg)"

definition draw_marker ::
  "canvas \<Rightarrow> int \<times> int \<Rightarrow> nat \<times> nat \<times> nat \<Rightarrow> marker_type \<Rightarrow> nat \<Rightarrow> nat \<Rightarrow> line_type \<Rightarrow> canvas"
where
  "draw_marker img pos col mtype msize thick ltype =
     img\<lparr>markers := markers img @ [\<lparr>position = pos, color = col, marker_kind = mtype,
                                    marker_size = msize, thickness = thick, line_kind = ltype\<rparr>]\<rparr>"

subsection \<open>Basic facts\<close>

lemma np_empty_simps [simp]:
  "c_rows (np_empty (r, c, ch)) = r" "c_cols (np_empty (r, c, ch)) = c"
  "c_chans (np_empty (r, c, ch)) = ch" "content (np_empty (r, c, ch)) = Uninitialised"
  "markers (np_empty (r, c, ch)) = []"
  by (simp_all add: np_empty_def)

lemma draw_marker_shape [simp]:
  "c_rows (draw_marker img p col t s th l) = c_rows img"
  "c_cols (draw_marker img p col t s th l) = c_cols img"
  "c_chans (draw_marker img p col t s th l) = c_chans img"
  "content (draw_marker img p col t s th l) = content img"
  by (simp_all add: draw_marker_def)

lemma markers_draw_marker [simp]:
  "markers (draw_marker img p col t s th l) =
     markers img @ [\<lparr>position = p, color = col, marker_kind = t, marker_size = s,
                    thickness = th, line_kind = l\<rparr>]"
  by (simp add: draw_marker_def)

lemma draw_matches_Inl:
  "draw_matches img1 kp1 img2 kp2 ms out = Inl e \<longleftrightarrow>
     e = CvError BadMatchIndex \<and> \<not> list_all (\<lambda>m. queryIdx m < length kp1 \<and> trainIdx m < length kp2) ms"
proof -
  have "list_ex (\<lambda>m. length kp1 \<le> queryIdx m \<or> length kp2 \<le> trainIdx m) ms \<longleftrightarrow>
        \<not> list_all (\<lambda>m. queryIdx m < length kp1 \<and> trainIdx m < length kp2) ms"
    by (induction ms) auto
  then show ?thesis by (auto simp: draw_matches_def)
qed

lemma draw_matches_in_place:
  assumes "list_all (\<lambda>m. queryIdx m < length kp1 \<and> trainIdx m < length kp2) ms"
  shows "draw_matches img1 kp1 img2 kp2 ms
           (np_empty (max (img_rows img1) (img_rows img2), img_cols img1 + img_cols img2, 3)) =
         Inr \<lparr>c_rows = max (img_rows img1) (img_rows img2), c_cols = img_cols img1 + img_cols img2,
              c_chans = 3, content = MatchesDrawn img1 img2 (match_segments img1 kp1 kp2 ms),
              markers = []\<rparr>"
  using assms by (simp add: draw_matches_def list_ex_iff list_all_iff not_le np_empty_def)

end
