(* ===== verification/Localizer.thy ===== *)
theory Localizer
  imports Render
begin

text \<open>
  \<^verbatim>\<open>draw_corner_coordinates\<close> (\<^verbatim>\<open>src/cv_task_handenur.py\<close>, lines 45--107), statement by
  statement: the shape accesses of line 46 (\<^verbatim>\<open>AttributeError\<close> when an image is
  \<^verbatim>\<open>None\<close>), the canvas of \<^verbatim>\<open>np.empty\<close>, \<^verbatim>\<open>drawMatches\<close>, the loop that fills the
  point arrays \<^verbatim>\<open>obj\<close> and \<^verbatim>\<open>scene\<close> (lines 52--60, \<^verbatim>\<open>IndexError\<close> on a bad index),
  \<^verbatim>\<open>findHomography\<close> (line 62), the corner array, \<^verbatim>\<open>perspectiveTransform\<close> and the four
  \<^verbatim>\<open>drawMarker\<close> calls. RANSAC is not modelled: \<open>fit\<close>, the estimator, is a parameter
  returning a homography or \<^verbatim>\<open>None\<close> (the empty matrix OpenCV returns when the fit
  fails); \<^verbatim>\<open>findHomography\<close> itself raises \<^verbatim>\<open>cv2.error\<close> on fewer than four point
  pairs before the estimator runs. The theory proves what the function returns on every path.
\<close>

type_synonym fitter = "point list \<Rightarrow> point list \<Rightarrow> homography option"

fun correspondences ::
  "dmatch list \<Rightarrow> keypoint list \<Rightarrow> keypoint list \<Rightarrow> (point list \<times> point list) res" where
  "correspondences [] kp_query kp_main = Inr ([], [])"
| "correspondences (m # ms) kp_query kp_main =
     (if queryIdx m < length kp_query then
        if trainIdx m < length kp_main then
          res_bind (correspondences ms kp_query kp_main)
            (\<lambda>(obj, scene). Inr (pt (kp_query ! queryIdx m) # obj, pt (kp_main ! trainIdx m) # scene))
        else Inl IndexError
      else Inl IndexError)"

definition find_homography :: "fitter \<Rightarrow> point list \<Rightarrow> point list \<Rightarrow> homography option res" where
  "find_homography fit obj scene =
     (if length obj < 4 then Inl (CvError TooFewPoints) else Inr (fit obj scene))"

definition corner_pos :: "gray_image \<Rightarrow> point \<Rightarrow> int \<times> int" where
  "corner_pos query_image c = (py_int (fst c + real (img_cols query_image)), py_int (snd c))"

definition draw_corner_coordinates ::
  "fitter \<Rightarrow> gray_image option \<Rightarrow> gray_image option \<Rightarrow> dmatch list \<Rightarrow> keypoint list \<Rightarrow>
   keypoint list \<Rightarrow> canvas res" where
  "draw_corner_coordinates fit query_image main_image good_matches kp_query kp_main =
     (case (query_image, main_image) of
        (None, _) \<Rightarrow> Inl AttributeError
      | (_, None) \<Rightarrow> Inl AttributeError
      | (Some q, Some mi) \<Rightarrow>
          (let img_matches = np_empty (max (img_rows q) (img_rows mi), img_cols q + img_cols mi, 3)
           in res_bind (draw_matches q kp_query mi kp_main good_matches img_matches) (\<lambda>img_matches.
              res_bind (correspondences good_matches kp_query kp_main) (\<lambda>(obj, scene).
              res_bind (find_homography fit obj scene) (\<lambda>H.
              res_bind (perspective_transform (obj_corners q) H) (\<lambda>scene_corners.
                let im_with_corner1 = draw_marker img_matches (corner_pos q (scene_corners ! 0))
                                        (255, 0, 0) MARKER_DIAMOND 7 3 LINE_AA;
                    im_with_corner2 = draw_marker im_with_corner1 (corner_pos q (scene_corners ! 1))
                                        (255, 0, 0) MARKER_DIAMOND 7 2 LINE_AA;
                    im_with_corner3 = draw_marker im_with_corner2 (corner_pos q (scene_corners ! 2))
                                        (255, 0, 0) MARKER_DIAMOND 7 2 LINE_AA;
                    im_with_corners = draw_marker im_with_corner3 (corner_pos q (scene_corners ! 3))
                                        (255, 0, 0) MARKER_DIAMOND 7 2 LINE_AA
                in Inr im_with_corners))))))"

subsection \<open>What a successful call draws\<close>

definition valid_matches :: "dmatch list \<Rightarrow> keypoint list \<Rightarrow> keypoint list \<Rightarrow> bool" where
  "valid_matches ms kp_query kp_main \<longleftrightarrow>
     list_all (\<lambda>m. queryIdx m < length kp_query \<and> trainIdx m < length kp_main) ms"

definition diamond :: "int \<times> int \<Rightarrow> nat \<Rightarrow> marker" where
  "diamond p th = \<lparr>position = p, color = (255, 0, 0), marker_kind = MARKER_DIAMOND,
                   marker_size = 7, thickness = th, line_kind = LINE_AA\<rparr>"

definition located_canvas ::
  "gray_image \<Rightarrow> gray_image \<Rightarrow> dmatch list \<Rightarrow> keypoint list \<Rightarrow> keypoint list \<Rightarrow> homography \<Rightarrow> canvas"
where
  "located_canvas q mi good kp_query kp_main H =
     \<lparr>c_rows = max (img_rows q) (img_rows mi), c_cols = img_cols q + img_cols mi, c_chans = 3,
      content = MatchesDrawn q mi (match_segments q kp_query kp_main good),
      markers = map2 diamond (map (\<lambda>c. corner_pos q (perspective_point H c)) (obj_corners q))
                             [3, 2, 2, 2]\<rparr>"

lemma correspondences_valid:
  "valid_matches ms kq km \<Longrightarrow>
   correspondences ms kq km = Inr (map (\<lambda>m. pt (kq ! queryIdx m)) ms, map (\<lambda>m. pt (km ! trainIdx m)) ms)"
  by (induction ms) (auto simp: valid_matches_def)

lemma correspondences_Inl:
  "\<not> valid_matches ms kq km \<Longrightarrow> correspondences ms kq km = Inl IndexError"
  by (induction ms) (auto simp: valid_matches_def split: sum.splits)

lemma draw_corner_coordinates_None:
  "draw_corner_coordinates fit None mi good kq km = Inl AttributeError"
  "draw_corner_coordinates fit q None good kq km = Inl AttributeError"
  by (simp_all add: draw_corner_coordinates_def split: option.splits)

lemma draw_corner_coordinates_eq:
  "draw_corner_coordinates fit (Some q) (Some mi) good kq km =
     (if \<not> valid_matches good kq km then Inl (CvError BadMatchIndex)
      else if length good < 4 then Inl (CvError TooFewPoints)
      else case fit (map (\<lambda>m. pt (kq ! queryIdx m)) good) (map (\<lambda>m. pt (km ! trainIdx m)) good) of
             None \<Rightarrow> Inl (CvError NoTransform)
           | Some H \<Rightarrow> Inr (located_canvas q mi good kq km H))"
proof (cases "valid_matches good kq km")
  case False
  then have "draw_matches q kq mi km good
               (np_empty (max (img_rows q) (img_rows mi), img_cols q + img_cols mi, 3)) =
             Inl (CvError BadMatchIndex)"
    by (simp add: draw_matches_Inl valid_matches_def)
  with False show ?thesis by (simp add: draw_corner_coordinates_def)
next
  case True
  then have dm: "draw_matches q kq mi km good
               (np_empty (max (img_rows q) (img_rows mi), img_cols q + img_cols mi, 3)) =
             Inr \<lparr>c_rows = max (img_rows q) (img_rows mi), c_cols = img_cols q + img_cols mi,
              c_chans = 3, content = MatchesDrawn q mi (match_segments q kq km good), markers = []\<rparr>"
    by (simp add: draw_matches_in_place valid_matches_def)
  show ?thesis
    using True
    by (simp add: draw_corner_coordinates_def dm correspondences_valid find_homography_def
                  located_canvas_def diamond_def obj_corners_def split: option.splits)
qed

subsection \<open>A concrete call\<close>

text \<open>
  A 2x3 query image, a 10x10 main image and four matches between key points, used by the
  witnesses below.
\<close>

abbreviation ex_query :: gray_image where
  "ex_query \<equiv> \<lparr>img_rows = 2, img_cols = 3, pixels = []\<rparr>"

abbreviation ex_main :: gray_image where
  "ex_main \<equiv> \<lparr>img_rows = 10, img_cols = 10, pixels = []\<rparr>"

abbreviation ex_good :: "dmatch list" where
  "ex_good \<equiv> map (\<lambda>i. \<lparr>queryIdx = i, trainIdx = i, distance = 0\<rparr>) [0..<4]"

abbreviation ex_kps :: "keypoint list" where
  "ex_kps \<equiv> replicate 4 \<lparr>pt = (0, 0), kp_size = 1, angle = 0, response = 0, octave = 0, class_id = -1\<rparr>"

lemma ex_valid: "valid_matches ex_good ex_kps ex_kps \<and> 4 \<le> length ex_good"
  by (simp add: valid_matches_def numeral_eq_Suc upt_rec)

lemma ex_run:
  "draw_corner_coordinates (\<lambda>_ _. Some H) (Some ex_query) (Some ex_main) ex_good ex_kps ex_kps =
   Inr (located_canvas ex_query ex_main ex_good ex_kps ex_kps H)"
  using ex_valid by (simp add: draw_corner_coordinates_eq)

subsection \<open>Claims on \<^verbatim>\<open>draw_corner_coordinates\<close>\<close>

text \<open>
  C5. With fewer than four good matches, \<^verbatim>\<open>draw_corner_coordinates\<close> raises: the
  \<^verbatim>\<open>cv2.error\<close> of \<^verbatim>\<open>findHomography\<close>'s four-point check, a generic OpenCV error and
  not a dedicated \<^verbatim>\<open>InsufficientMatchesError\<close>.
\<close>

theorem draw_corner_coordinates_too_few:
  "valid_matches good kq km \<Longrightarrow> length good < 4 \<Longrightarrow>
   draw_corner_coordinates fit (Some q) (Some mi) good kq km = Inl (CvError TooFewPoints)"
  by (simp add: draw_corner_coordinates_eq)

theorem draw_corner_coordinates_too_few_witness:
  "valid_matches [] [] [] \<and> length ([] :: dmatch list) < 4 \<and>
   draw_corner_coordinates (\<lambda>_ _. None) (Some \<lparr>img_rows = 2, img_cols = 3, pixels = []\<rparr>)
     (Some \<lparr>img_rows = 10, img_cols = 10, pixels = []\<rparr>) [] [] [] = Inl (CvError TooFewPoints)"
proof -
  have "valid_matches [] [] []" "length ([] :: dmatch list) < 4"
    by (simp_all add: valid_matches_def)
  with draw_corner_coordinates_too_few[OF this] show ?thesis by blast
qed


text \<open>
  C9. A successful call leaves four diamond markers on the canvas, in corner order, each at
  the corresponding query corner mapped by the fitted homography and shifted right by the
  query's width (the main image is drawn to the right of the query), its coordinates
  truncated by \<^verbatim>\<open>int()\<close>; the first marker is drawn with thickness 3, the others with 2.
\<close>

theorem draw_corner_coordinates_markers:
  assumes "draw_corner_coordinates fit (Some q) (Some mi) good kq km = Inr c"
  shows "\<exists>H. fit (map (\<lambda>m. pt (kq ! queryIdx m)) good) (map (\<lambda>m. pt (km ! trainIdx m)) good) = Some H
             \<and> markers c = map2 diamond (map (\<lambda>p. corner_pos q (perspective_point H p)) (obj_corners q))
                                       [3, 2, 2, 2]"
  using assms
  by (auto simp: draw_corner_coordinates_eq located_canvas_def split: if_splits option.splits)

theorem draw_corner_coordinates_markers_witness:
  "draw_corner_coordinates (\<lambda>_ _. Some hom_id) (Some ex_query) (Some ex_main) ex_good ex_kps ex_kps =
     Inr (located_canvas ex_query ex_main ex_good ex_kps ex_kps hom_id)
   \<and> map position (markers (located_canvas ex_query ex_main ex_good ex_kps ex_kps hom_id))
     = [(3, 0), (6, 0), (6, 2), (3, 2)]"
  using ex_run[of hom_id] draw_corner_coordinates_markers[OF ex_run[of hom_id]]
  by (auto simp: diamond_def obj_corners_def corner_pos_def)

text \<open>
  C10. The canvas \<^verbatim>\<open>draw_corner_coordinates\<close> returns is the array \<^verbatim>\<open>np.empty\<close>
  allocated, with the match drawing in it: its shape is exactly the one \<^verbatim>\<open>drawMatches\<close>
  needs (the larger height, the sum of the widths, three channels), so \<^verbatim>\<open>drawMatches\<close>
  writes in place and the discarded return value loses nothing.
\<close>

theorem draw_corner_coordinates_canvas:
  assumes "draw_corner_coordinates fit (Some q) (Some mi) good kq km = Inr c"
  shows "c_rows c = max (img_rows q) (img_rows mi) \<and> c_cols c = img_cols q + img_cols mi
         \<and> c_chans c = 3 \<and> content c = MatchesDrawn q mi (match_segments q kq km good)"
  using assms
  by (auto simp: draw_corner_coordinates_eq located_canvas_def split: if_splits option.splits)

theorem draw_corner_coordinates_canvas_witness:
  "draw_corner_coordinates (\<lambda>_ _. Some hom_id) (Some ex_query) (Some ex_main) ex_good ex_kps ex_kps =
     Inr (located_canvas ex_query ex_main ex_good ex_kps ex_kps hom_id)
   \<and> c_cols (located_canvas ex_query ex_main ex_good ex_kps ex_kps hom_id) = 13"
  using ex_run[of hom_id] draw_corner_coordinates_canvas[OF ex_run[of hom_id]] by simp

text \<open>
  C3. The end-to-end scenario of the specification: when the estimator recovers the
  translation by an integer offset \<open>(dx, dy)\<close> (the query is an unrotated, unscaled copy
  at that offset in the main image), the four markers sit exactly at the query's corners
  shifted by \<open>(dx, dy)\<close>, plus the query's width on the x axis because the main image is
  drawn to the right of the query.
\<close>

theorem draw_corner_coordinates_translation:
  assumes "valid_matches good kq km" and "4 \<le> length good"
    and "fit (map (\<lambda>m. pt (kq ! queryIdx m)) good) (map (\<lambda>m. pt (km ! trainIdx m)) good)
           = Some (hom_translate (of_int dx) (of_int dy))"
  shows "\<exists>c. draw_corner_coordinates fit (Some q) (Some mi) good kq km = Inr c \<and>
         map position (markers c) =
           [(dx + int (img_cols q), dy), (dx + 2 * int (img_cols q), dy),
            (dx + 2 * int (img_cols q), dy + int (img_rows q)), (dx + int (img_cols q), dy + int (img_rows q))]"
  using assms
  by (simp add: draw_corner_coordinates_eq located_canvas_def obj_corners_def corner_pos_def diamond_def)
     (intro conjI py_int_eqI; simp)

theorem draw_corner_coordinates_translation_witness:
  "valid_matches ex_good ex_kps ex_kps \<and> 4 \<le> length ex_good \<and>
   (\<exists>c. draw_corner_coordinates (\<lambda>_ _. Some (hom_translate (of_int 5) (of_int 4)))
          (Some ex_query) (Some ex_main) ex_good ex_kps ex_kps = Inr c \<and>
        map position (markers c) = [(5 + 3, 4), (5 + 2 * 3, 4), (5 + 2 * 3, 4 + 2), (5 + 3, 4 + 2)])"
proof -
  have fit: "(\<lambda>_ _. Some (hom_translate (of_int 5) (of_int 4)))
               (map (\<lambda>m. pt (ex_kps ! queryIdx m)) ex_good) (map (\<lambda>m. pt (ex_kps ! trainIdx m)) ex_good)
             = Some (hom_translate (of_int 5) (of_int 4))" by simp
  have v: "valid_matches ex_good ex_kps ex_kps" "4 \<le> length ex_good" using ex_valid by simp_all
  from draw_corner_coordinates_translation[OF v fit, of ex_query ex_main] v show ?thesis by simp
qed



end
