(* ===== verification/Args.thy ===== *)
theory Args
  imports Prelude
begin

text \<open>
  The command line of \<^verbatim>\<open>main\<close> (\<^verbatim>\<open>src/cv_task_handenur.py\<close>, lines 112--117): an
  \<^verbatim>\<open>argparse.ArgumentParser\<close> with \<^verbatim>\<open>add_help=False\<close> and three optional arguments
  \<^verbatim>\<open>--input1\<close>, \<^verbatim>\<open>--input2\<close>, \<^verbatim>\<open>--input3\<close> (action \<^verbatim>\<open>store\<close>, one value each,
  default \<^verbatim>\<open>None\<close>), parsed from \<^verbatim>\<open>sys.argv[1:]\<close>. The library's algorithm is modelled
  as CPython 3.11's \<^verbatim>\<open>argparse\<close> runs it for a parser whose arguments are all such
  options and which has no positionals:
  \<^item> every string up to a \<^verbatim>\<open>'--'\<close> is classified by \<^verbatim>\<open>_parse_optional\<close> as an argument
    (\<open>Positional\<close>), a known option, possibly with an explicit \<^verbatim>\<open>=value\<close> or reached by a
    unique abbreviation (\<open>OptionArg\<close>), or an unknown option; an ambiguous abbreviation is an
    error at once, before anything is parsed; everything after \<^verbatim>\<open>'--'\<close> is an argument;
  \<^item> the loop of \<^verbatim>\<open>_parse_known_args\<close> walks the option indices: the strings before the
    next option are extras, an unknown option is an extra, a known option takes its explicit
    value or the next string, which must be an argument (\<^verbatim>\<open>expected one argument\<close>
    otherwise); \<^verbatim>\<open>store\<close> sets the option's \<^verbatim>\<open>dest\<close>, so the last occurrence wins;
  \<^item> \<^verbatim>\<open>parse_args\<close> fails with \<^verbatim>\<open>unrecognized arguments\<close> when extras remain.
  A namespace maps each \<^verbatim>\<open>dest\<close> to its value; every default is \<^verbatim>\<open>None\<close>. Errors are
  \<open>ArgumentError\<close> with argparse's message (\<open>Pipeline\<close> turns them into the exit).
  Proved: the index loop terminates, it equals a structural scan of the classified strings,
  both printed forms of a command line parse back, the last occurrence of an option wins,
  which error a bad command line gets, and that only declared attributes receive values.
\<close>

record arg_parser =
  prog :: string
  description :: string
  option_strings :: "string list"

type_synonym namespace = "string \<Rightarrow> string option"

datatype arg_class =
    Positional
  | Separator
  | OptionArg string "string option"
  | UnknownOption

subsection \<open>Building the parser\<close>

text \<open>\<^verbatim>\<open>os.path.basename\<close>: the part after the last slash.\<close>

definition basename :: "string \<Rightarrow> string" where
  "basename p = rev (takeWhile (\<lambda>c. c \<noteq> CHR ''/'') (rev p))"

text \<open>\<^verbatim>\<open>ArgumentParser(description=..., add_help=False)\<close>: the program name is
  \<^verbatim>\<open>os.path.basename(sys.argv[0])\<close>, an \<^verbatim>\<open>IndexError\<close> when \<^verbatim>\<open>sys.argv\<close> is empty.\<close>

definition argument_parser :: "string list \<Rightarrow> string \<Rightarrow> arg_parser res" where
  "argument_parser sys_argv desc =
     (case sys_argv of
        [] \<Rightarrow> Inl IndexError
      | a0 # _ \<Rightarrow> Inr \<lparr>prog = basename a0, description = desc, option_strings = []\<rparr>)"

definition add_argument :: "arg_parser \<Rightarrow> string \<Rightarrow> arg_parser" where
  "add_argument parser opt = parser\<lparr>option_strings := option_strings parser @ [opt]\<rparr>"

text \<open>The \<^verbatim>\<open>dest\<close> of an option: \<^verbatim>\<open>option_string.lstrip('-').replace('-', '_')\<close>.\<close>

definition opt_dest :: "string \<Rightarrow> string" where
  "opt_dest s = map (\<lambda>c. if c = CHR ''-'' then CHR ''_'' else c) (dropWhile (\<lambda>c. c = CHR ''-'') s)"

text \<open>Python's \<^verbatim>\<open>sep.join(xs)\<close>.\<close>

fun py_join :: "string \<Rightarrow> string list \<Rightarrow> string" where
  "py_join sep [] = []"
| "py_join sep [x] = x"
| "py_join sep (x # xs) = x @ sep @ py_join sep xs"

subsection \<open>Classifying the strings: \<^verbatim>\<open>_parse_optional\<close>\<close>

definition starts_with :: "string \<Rightarrow> string \<Rightarrow> bool" where
  "starts_with s p \<longleftrightarrow> take (length p) s = p"

definition is_digit :: "char \<Rightarrow> bool" where
  "is_digit c \<longleftrightarrow> (48::nat) \<le> of_char c \<and> of_char c \<le> (57::nat)"

text \<open>\<^verbatim>\<open>^-\d+$|^-\d*\.\d+$\<close> without the trailing newline that \<^verbatim>\<open>$\<close> also accepts.\<close>

definition neg_number_body :: "string \<Rightarrow> bool" where
  "neg_number_body s =
     (case s of
        c # t \<Rightarrow> c = CHR ''-'' \<and>
          ((t \<noteq> [] \<and> list_all is_digit t) \<or>
           (let r = dropWhile is_digit t in
              r \<noteq> [] \<and> hd r = CHR ''.'' \<and> tl r \<noteq> [] \<and> list_all is_digit (tl r)))
      | [] \<Rightarrow> False)"

definition neg_number :: "string \<Rightarrow> bool" where
  "neg_number s \<longleftrightarrow>
     neg_number_body s \<or> (s \<noteq> [] \<and> last s = CHR 0x0A \<and> neg_number_body (butlast s))"

definition option_tuples :: "string list \<Rightarrow> string \<Rightarrow> (string \<times> string option) list" where
  "option_tuples opts s =
     (if s ! 1 = CHR ''-'' then
        (let pre = takeWhile (\<lambda>c. c \<noteq> CHR ''='') s;
             r = dropWhile (\<lambda>c. c \<noteq> CHR ''='') s;
             ex = (if r = [] then None else Some (tl r))
         in map (\<lambda>opt. (opt, ex)) (filter (\<lambda>opt. starts_with opt pre) opts))
      else concat (map (\<lambda>opt. if opt = take 2 s then [(opt, Some (drop 2 s))]
                             else if starts_with opt s then [(opt, None)] else []) opts))"

definition parse_optional :: "string list \<Rightarrow> string \<Rightarrow> arg_class res" where
  "parse_optional opts s =
     (if s = [] then Inr Positional
      else if hd s \<noteq> CHR ''-'' then Inr Positional
      else if s \<in> set opts then Inr (OptionArg s None)
      else if length s = 1 then Inr Positional
      else
        (let pre = takeWhile (\<lambda>c. c \<noteq> CHR ''='') s;
             r = dropWhile (\<lambda>c. c \<noteq> CHR ''='') s
         in if r \<noteq> [] \<and> pre \<in> set opts then Inr (OptionArg pre (Some (tl r)))
            else
              (let tups = option_tuples opts s
               in if 1 < length tups then
                    Inl (ArgumentError (''ambiguous option: '' @ s @ '' could match '' @
                                        py_join '', '' (map fst tups)))
                  else if length tups = 1 then Inr (OptionArg (fst (hd tups)) (snd (hd tups)))
                  else if neg_number s \<and> \<not> list_ex neg_number opts then Inr Positional
                  else if CHR '' '' \<in> set s then Inr Positional
                  else Inr UnknownOption)))"

text \<open>The pattern of \<^verbatim>\<open>_parse_known_args\<close>: a \<^verbatim>\<open>'--'\<close> makes every later string an
  argument.\<close>

fun classify :: "string list \<Rightarrow> string list \<Rightarrow> arg_class list res" where
  "classify opts [] = Inr []"
| "classify opts (s # ss) =
     (if s = ''--'' then Inr (Separator # map (\<lambda>_. Positional) ss)
      else res_bind (parse_optional opts s) (\<lambda>c. res_bind (classify opts ss) (\<lambda>cs. Inr (c # cs))))"

subsection \<open>The parse loop\<close>

definition is_option :: "arg_class \<Rightarrow> bool" where
  "is_option c = (case c of OptionArg _ _ \<Rightarrow> True | UnknownOption \<Rightarrow> True | _ \<Rightarrow> False)"

text \<open>\<^verbatim>\<open>min(index for index in option_string_indices if index >= start_index)\<close>.\<close>

definition next_option :: "arg_class list \<Rightarrow> nat \<Rightarrow> nat option" where
  "next_option pat i = find (\<lambda>j. is_option (pat ! j)) [i..<length pat]"

text \<open>\<^verbatim>\<open>consume_optional\<close> for a \<^verbatim>\<open>store\<close> action with one value: the option pattern
  \<^verbatim>\<open>'(A)'\<close> accepts only an argument as the next string.\<close>

definition consume_optional ::
  "string list \<Rightarrow> arg_class list \<Rightarrow> nat \<Rightarrow> namespace \<Rightarrow> string list \<Rightarrow>
   (nat \<times> namespace \<times> string list) res" where
  "consume_optional args pat start ns extras =
     (case pat ! start of
        OptionArg opt (Some v) \<Rightarrow> Inr (Suc start, ns(opt_dest opt := Some v), extras)
      | OptionArg opt None \<Rightarrow>
          (if Suc start < length pat \<and> pat ! Suc start = Positional
           then Inr (start + 2, ns(opt_dest opt := Some (args ! Suc start)), extras)
           else Inl (ArgumentError (''argument '' @ opt @ '': expected one argument'')))
      | _ \<Rightarrow> Inr (Suc start, ns, extras @ [args ! start]))"

lemma next_option_range: "next_option pat i = Some j \<Longrightarrow> i \<le> j \<and> j < length pat"
  by (auto simp: next_option_def find_Some_iff)

lemma consume_optional_progress:
  "consume_optional args pat j ns ex = Inr (stop, r) \<Longrightarrow> j < stop"
  by (auto simp: consume_optional_def split: arg_class.splits option.splits if_splits)

function parse_loop ::
  "string list \<Rightarrow> arg_class list \<Rightarrow> nat \<Rightarrow> namespace \<Rightarrow> string list \<Rightarrow>
   (namespace \<times> string list) res" where
  "parse_loop args pat i ns extras =
     (case next_option pat i of
        None \<Rightarrow> Inr (ns, extras @ drop i args)
      | Some j \<Rightarrow>
          (case consume_optional args pat j ns (extras @ take (j - i) (drop i args)) of
             Inl e \<Rightarrow> Inl e
           | Inr (stop, ns', extras') \<Rightarrow> parse_loop args pat stop ns' extras'))"
  by pat_completeness auto
termination
  by (relation "measure (\<lambda>(args, pat, i, _, _). length pat - i)")
     (auto dest!: next_option_range consume_optional_progress)

definition parse_known_args :: "arg_parser \<Rightarrow> string list \<Rightarrow> (namespace \<times> string list) res" where
  "parse_known_args parser args =
     res_bind (classify (option_strings parser) args) (\<lambda>pat. parse_loop args pat 0 (\<lambda>_. None) [])"

definition parse_args :: "arg_parser \<Rightarrow> string list \<Rightarrow> namespace res" where
  "parse_args parser args =
     res_bind (parse_known_args parser args) (\<lambda>(ns, argv).
       if argv \<noteq> [] then Inl (ArgumentError (''unrecognized arguments: '' @ py_join '' '' argv))
       else Inr ns)"


subsection \<open>The loop read structurally\<close>

text \<open>
  With no positional arguments, the loop amounts to one pass over the strings and their
  classes: an option with an explicit value stores it, an option followed by an argument stores
  that argument, an option followed by anything else fails, every other string is an extra.
\<close>

fun scan :: "string list \<Rightarrow> arg_class list \<Rightarrow> namespace \<Rightarrow> string list \<Rightarrow> (namespace \<times> string list) res" where
  "scan (s # ss) (OptionArg opt (Some v) # cs) ns ex = scan ss cs (ns(opt_dest opt := Some v)) ex"
| "scan (s # v # ss) (OptionArg opt None # Positional # cs) ns ex = scan ss cs (ns(opt_dest opt := Some v)) ex"
| "scan (s # ss) (OptionArg opt None # cs) ns ex = Inl (ArgumentError (''argument '' @ opt @ '': expected one argument''))"
| "scan (s # ss) (c # cs) ns ex = scan ss cs ns (ex @ [s])"
| "scan ss cs ns ex = Inr (ns, ex @ ss)"

subsection \<open>Printing a command line\<close>

text \<open>
  The options of a parser of this shape: long options (\<^verbatim>\<open>--name\<close>) without \<^verbatim>\<open>=\<close>;
  the namespace after storing a list of option/value pairs in order; the two ways of writing
  such pairs on a command line; a value that cannot be mistaken for an option.
\<close>

definition wf_options :: "string list \<Rightarrow> bool" where
  "wf_options opts \<longleftrightarrow>
     list_all (\<lambda>opt. 2 < length opt \<and> take 2 opt = ''--'' \<and> CHR ''='' \<notin> set opt) opts"

definition store_all :: "(string \<times> string) list \<Rightarrow> namespace \<Rightarrow> namespace" where
  "store_all pairs ns = foldl (\<lambda>ns (opt, v). ns(opt_dest opt := Some v)) ns pairs"

definition render_explicit :: "(string \<times> string) list \<Rightarrow> string list" where
  "render_explicit pairs = map (\<lambda>(opt, v). opt @ ''='' @ v) pairs"

definition render_separate :: "(string \<times> string) list \<Rightarrow> string list" where
  "render_separate pairs = concat (map (\<lambda>(opt, v). [opt, v]) pairs)"

definition plain_value :: "string \<Rightarrow> bool" where
  "plain_value v \<longleftrightarrow> v = [] \<or> hd v \<noteq> CHR ''-''"

subsection \<open>Lemmas on classification and the loop\<close>

lemma scan_skip:
  "list_all (\<lambda>c. \<not> is_option c) cs \<Longrightarrow> length xs = length cs \<Longrightarrow>
   scan (xs @ ys) (cs @ ds) ns ex = scan ys ds ns (ex @ xs)"
proof (induction cs arbitrary: xs ex)
  case Nil then show ?case by simp
next
  case (Cons c cs)
  then obtain x xs' where "xs = x # xs'" by (cases xs) auto
  with Cons show ?case by (cases c) (auto simp: is_option_def)
qed

lemma scan_step:
  assumes "j < length pat" "length args = length pat" "is_option (pat ! j)"
  shows "scan (drop j args) (drop j pat) ns ex =
           (case consume_optional args pat j ns ex of
              Inl e \<Rightarrow> Inl e
            | Inr (stop, ns', ex') \<Rightarrow> scan (drop stop args) (drop stop pat) ns' ex')"
proof -
  have a: "drop j args = args ! j # drop (Suc j) args" and p: "drop j pat = pat ! j # drop (Suc j) pat"
    using assms by (simp_all add: Cons_nth_drop_Suc)
  show ?thesis
  proof (cases "pat ! j")
    case (OptionArg opt v)
    show ?thesis
    proof (cases v)
      case None
      show ?thesis
      proof (cases "Suc j < length pat")
        case True
        then have a2: "drop (Suc j) args = args ! Suc j # drop (Suc (Suc j)) args"
          and p2: "drop (Suc j) pat = pat ! Suc j # drop (Suc (Suc j)) pat"
          using assms by (simp_all add: Cons_nth_drop_Suc)
        show ?thesis
          using OptionArg None a p a2 p2 True
          by (cases "pat ! Suc j") (simp_all add: consume_optional_def numeral_2_eq_2)
      next
        case False
        then have "drop (Suc j) args = []" "drop (Suc j) pat = []" using assms by simp_all
        then show ?thesis using OptionArg None a p False by (simp add: consume_optional_def)
      qed
    qed (use OptionArg a p in \<open>simp add: consume_optional_def\<close>)
  qed (use assms a p in \<open>simp_all add: consume_optional_def is_option_def\<close>)
qed

lemma next_option_None:
  "next_option pat i = None \<Longrightarrow> list_all (\<lambda>c. \<not> is_option c) (drop i pat)"
  by (auto simp: next_option_def find_None_iff list_all_iff in_set_conv_nth)

lemma next_option_Some:
  "next_option pat i = Some j \<Longrightarrow> list_all (\<lambda>c. \<not> is_option c) (take (j - i) (drop i pat)) \<and> is_option (pat ! j)"
  by (auto simp: next_option_def find_Some_iff list_all_iff in_set_conv_nth)

lemma parse_loop_scan:
  "length args = length pat \<Longrightarrow>
   parse_loop args pat i ns ex = scan (drop i args) (drop i pat) ns ex"
proof (induction args pat i ns ex rule: parse_loop.induct)
  case (1 args pat i ns extras)
  show ?case
  proof (cases "next_option pat i")
    case None
    then have "scan (drop i args @ []) (drop i pat @ []) ns extras = scan [] [] ns (extras @ drop i args)"
      using "1.prems" by (intro scan_skip next_option_None) simp_all
    then show ?thesis using None by simp
  next
    case (Some j)
    have r: "i \<le> j" "j < length pat" using next_option_range[OF Some] by simp_all
    have split: "drop i xs = take (j - i) (drop i xs) @ drop j xs" for xs :: "'a list"
      using r(1) by (metis append_take_drop_id drop_drop le_add_diff_inverse2)
    have "scan (drop i args) (drop i pat) ns extras =
          scan (drop j args) (drop j pat) ns (extras @ take (j - i) (drop i args))"
      using "1.prems" r next_option_Some[OF Some]
      by (subst (1 2) split) (intro scan_skip; simp)
    also have "\<dots> = (case consume_optional args pat j ns (extras @ take (j - i) (drop i args)) of
              Inl e \<Rightarrow> Inl e
            | Inr (stop, ns', ex') \<Rightarrow> scan (drop stop args) (drop stop pat) ns' ex')"
      using "1.prems" r next_option_Some[OF Some] by (intro scan_step) simp_all
    finally show ?thesis
      using "1.IH"[OF Some] "1.prems" Some
      by (simp split: sum.splits prod.splits)
  qed
qed

lemma length_classify: "classify opts xs = Inr cs \<Longrightarrow> length cs = length xs"
  by (induction xs arbitrary: cs) (auto split: if_splits simp: res_bind_def split: sum.splits)

lemma wf_optionsD:
  "wf_options opts \<Longrightarrow> opt \<in> set opts \<Longrightarrow> 2 < length opt \<and> take 2 opt = ''--'' \<and> CHR ''='' \<notin> set opt"
  by (simp add: wf_options_def list_all_iff)

lemma wf_option_shape:
  assumes "wf_options opts" "opt \<in> set opts"
  obtains t where "opt = CHR ''-'' # CHR ''-'' # t" "t \<noteq> []" "CHR ''='' \<notin> set t"
proof -
  from wf_optionsD[OF assms] obtain a b t where "opt = a # b # t"
    by (metis Suc_1 Suc_le_length_iff less_imp_le_nat numeral_2_eq_2)
  with wf_optionsD[OF assms] show ?thesis by (intro that) (auto simp: numeral_2_eq_2)
qed

lemma parse_optional_option:
  "wf_options opts \<Longrightarrow> opt \<in> set opts \<Longrightarrow> parse_optional opts opt = Inr (OptionArg opt None)"
  by (erule wf_option_shape) (auto simp: parse_optional_def)

lemma parse_optional_explicit:
  assumes "wf_options opts" "opt \<in> set opts"
  shows "parse_optional opts (opt @ CHR ''='' # v) = Inr (OptionArg opt (Some v))"
proof -
  obtain t where t: "opt = CHR ''-'' # CHR ''-'' # t" "t \<noteq> []" "CHR ''='' \<notin> set t"
    using assms by (rule wf_option_shape)
  have "opt @ CHR ''='' # v \<notin> set opts"
    using assms(1) by (auto simp: wf_options_def list_all_iff)
  moreover have "takeWhile (\<lambda>c. c \<noteq> CHR ''='') t = t" "dropWhile (\<lambda>c. c \<noteq> CHR ''='') t = []"
    using t(3) by (auto simp: takeWhile_eq_all_conv dropWhile_eq_Nil_conv)
  ultimately show ?thesis
    using t assms(2) by (auto simp: parse_optional_def takeWhile_append2 dropWhile_append2)
qed

lemma parse_optional_plain: "plain_value v \<Longrightarrow> parse_optional opts v = Inr Positional"
  by (auto simp: plain_value_def parse_optional_def)

lemma classify_append:
  "''--'' \<notin> set xs \<Longrightarrow>
   classify opts (xs @ ys) = res_bind (classify opts xs) (\<lambda>cs. res_bind (classify opts ys) (\<lambda>ds. Inr (cs @ ds)))"
  by (induction xs) (auto simp: res_bind_def split: sum.splits)

lemma classify_Separator: "''--'' \<in> set xs \<Longrightarrow> classify opts xs = Inr cs \<Longrightarrow> Separator \<in> set cs"
  by (induction xs arbitrary: cs) (auto simp: res_bind_def split: sum.splits if_splits)

lemma scan_append:
  "length xs = length cs \<Longrightarrow> scan xs cs ns ex = Inr (ns', ex') \<Longrightarrow>
   scan (xs @ ys) (cs @ ds) ns ex = scan ys ds ns' ex'"
  by (induction xs cs ns ex rule: scan.induct) auto

lemma scan_extras: "scan xs cs ns ex = Inr (ns', ex') \<Longrightarrow> \<exists>r. ex' = ex @ r"
  by (induction xs cs ns ex rule: scan.induct) fastforce+

lemma scan_Separator:
  "length xs = length cs \<Longrightarrow> Separator \<in> set cs \<Longrightarrow> scan xs cs ns ex = Inr (ns', ex') \<Longrightarrow> ex' \<noteq> []"
  by (induction xs cs ns ex rule: scan.induct) (auto dest: scan_extras)

lemma parse_known_args_scan:
  "parse_known_args P xs = res_bind (classify (option_strings P) xs) (\<lambda>cs. scan xs cs (\<lambda>_. None) [])"
  unfolding parse_known_args_def
  by (cases "classify (option_strings P) xs")
     (simp_all del: parse_loop.simps add: parse_loop_scan length_classify)

lemma parse_args_scan:
  "parse_args P xs =
     res_bind (classify (option_strings P) xs) (\<lambda>cs. res_bind (scan xs cs (\<lambda>_. None) []) (\<lambda>(ns, ex).
       if ex \<noteq> [] then Inl (ArgumentError (''unrecognized arguments: '' @ py_join '' '' ex)) else Inr ns))"
  by (simp add: parse_args_def parse_known_args_scan res_bind_def split: sum.splits)

lemma parse_args_InrE:
  assumes "parse_args P xs = Inr ns"
  obtains cs where "classify (option_strings P) xs = Inr cs" "scan xs cs (\<lambda>_. None) [] = Inr (ns, [])"
    "''--'' \<notin> set xs" "length cs = length xs"
proof -
  obtain cs ns' ex where c: "classify (option_strings P) xs = Inr cs" and s: "scan xs cs (\<lambda>_. None) [] = Inr (ns', ex)"
    and "ex = []" "ns' = ns"
    using assms by (auto simp: parse_args_scan res_bind_def split: sum.splits if_splits)
  moreover have "''--'' \<notin> set xs"
    using classify_Separator[OF _ c] scan_Separator[OF length_classify[OF c, symmetric] _ s] \<open>ex = []\<close> by blast
  ultimately show ?thesis using that length_classify[OF c] by blast
qed

lemma classify_render_explicit:
  "wf_options opts \<Longrightarrow> set (map fst pairs) \<subseteq> set opts \<Longrightarrow>
   classify opts (render_explicit pairs) = Inr (map (\<lambda>(opt, v). OptionArg opt (Some v)) pairs)"
proof (induction pairs)
  case (Cons p pairs)
  obtain opt v where p: "p = (opt, v)" by (cases p)
  have "2 < length opt" using wf_optionsD[OF Cons.prems(1)] Cons.prems(2) p by auto
  then have "opt @ ''='' @ v \<noteq> ''--''" by (auto dest: arg_cong[where f = length])
  then show ?case using Cons p by (simp add: render_explicit_def parse_optional_explicit)
qed (simp add: render_explicit_def)

lemma scan_render_explicit:
  "scan (render_explicit pairs) (map (\<lambda>(opt, v). OptionArg opt (Some v)) pairs) ns ex =
   Inr (store_all pairs ns, ex)"
  by (induction pairs arbitrary: ns) (auto simp: render_explicit_def store_all_def)

lemma classify_render_separate:
  "wf_options opts \<Longrightarrow> set (map fst pairs) \<subseteq> set opts \<Longrightarrow> list_all plain_value (map snd pairs) \<Longrightarrow>
   classify opts (render_separate pairs) =
     Inr (concat (map (\<lambda>(opt, v). [OptionArg opt None, Positional]) pairs))"
proof (induction pairs)
  case (Cons p pairs)
  obtain opt v where p: "p = (opt, v)" by (cases p)
  have "2 < length opt" using wf_optionsD[OF Cons.prems(1)] Cons.prems(2) p by auto
  then have "opt \<noteq> ''--''" by auto
  moreover have "v \<noteq> ''--''" using Cons.prems(3) p by (auto simp: plain_value_def)
  ultimately show ?case
    using Cons p by (simp add: render_separate_def parse_optional_option parse_optional_plain)
qed (simp add: render_separate_def)

lemma scan_render_separate:
  "scan (render_separate pairs) (concat (map (\<lambda>(opt, v). [OptionArg opt None, Positional]) pairs)) ns ex =
   Inr (store_all pairs ns, ex)"
  by (induction pairs arbitrary: ns) (auto simp: render_separate_def store_all_def)

lemma classify_ok:
  "\<forall>x\<in>set xs. x \<noteq> ''--'' \<and> \<not> isl (parse_optional opts x) \<Longrightarrow> \<exists>cs. classify opts xs = Inr cs"
  by (induction xs) (auto simp: res_bind_def split: sum.splits)

lemma parse_args_append:
  assumes "parse_args P xs = Inr ns" "classify (option_strings P) ys = Inr ds"
  shows "parse_args P (xs @ ys) =
           res_bind (scan ys ds ns []) (\<lambda>(ns', ex).
             if ex \<noteq> [] then Inl (ArgumentError (''unrecognized arguments: '' @ py_join '' '' ex)) else Inr ns')"
proof -
  obtain cs where "classify (option_strings P) xs = Inr cs" "scan xs cs (\<lambda>_. None) [] = Inr (ns, [])"
    "''--'' \<notin> set xs" "length cs = length xs"
    using assms(1) by (rule parse_args_InrE)
  then show ?thesis using assms(2) by (simp add: parse_args_scan classify_append scan_append)
qed

lemma option_tuples_in:
  assumes "t \<in> set (option_tuples opts s)"
  shows "fst t \<in> set opts"
proof (cases "s ! 1 = CHR ''-''")
  case True
  then show ?thesis using assms by (auto simp: option_tuples_def Let_def)
next
  case False
  then obtain opt where "opt \<in> set opts"
    "t \<in> set (if opt = take 2 s then [(opt, Some (drop 2 s))]
              else if starts_with opt s then [(opt, None)] else [])"
    using assms by (auto simp only: option_tuples_def if_False set_concat set_map)
  then show ?thesis by (simp split: if_split_asm)
qed
lemma parse_optional_in:
  assumes "parse_optional opts s = Inr (OptionArg opt e)"
  shows "opt \<in> set opts"
proof -
  have hd: "length (option_tuples opts s) = 1 \<Longrightarrow> fst (hd (option_tuples opts s)) \<in> set opts"
    by (intro option_tuples_in[of _ opts s] hd_in_set) auto
  show ?thesis
    using assms hd unfolding parse_optional_def Let_def
    by (simp split: if_split_asm)
qed
lemma classify_in: "classify opts xs = Inr cs \<Longrightarrow> OptionArg opt e \<in> set cs \<Longrightarrow> opt \<in> set opts"
  by (induction xs arbitrary: cs) (auto simp: res_bind_def parse_optional_in split: sum.splits if_splits)

lemma scan_dests:
  "scan xs cs ns ex = Inr (ns', ex') \<Longrightarrow> ns' d = Some v \<Longrightarrow>
   ns d = Some v \<or> (\<exists>opt e. OptionArg opt e \<in> set cs \<and> d = opt_dest opt)"
  by (induction xs cs ns ex rule: scan.induct) (fastforce split: if_splits)+

subsection \<open>Claims on the command line\<close>

abbreviation ex_parser :: arg_parser where
  "ex_parser \<equiv> \<lparr>prog = ''cv_task_handenur.py'', description = ''Locating a Defined Area in the Star Map'',
                option_strings = [''--input1'', ''--input2'', ''--input3'']\<rparr>"

lemma ex_parser_wf: "wf_options (option_strings ex_parser)"
  by (simp add: wf_options_def)

text \<open>
  C30. Round trip of the explicit form \<^verbatim>\<open>--opt=value\<close>: every value, including ones that
  start with a dash or are \<^verbatim>\<open>'--'\<close>, is read back as written.
\<close>

theorem parse_args_render_explicit:
  assumes "wf_options (option_strings P)" and "set (map fst pairs) \<subseteq> set (option_strings P)"
  shows "parse_args P (render_explicit pairs) = Inr (store_all pairs (\<lambda>_. None))"
  using assms by (simp add: parse_args_scan classify_render_explicit scan_render_explicit)

theorem parse_args_render_explicit_witness:
  "wf_options (option_strings ex_parser) \<and>
   set (map fst [(''--input2'', ''-x''), (''--input1'', ''--'')]) \<subseteq> set (option_strings ex_parser) \<and>
   parse_args ex_parser [''--input2=-x'', ''--input1=--''] =
     Inr (store_all [(''--input2'', ''-x''), (''--input1'', ''--'')] (\<lambda>_. None))"
  using parse_args_render_explicit[OF ex_parser_wf, of "[(''--input2'', ''-x''), (''--input1'', ''--'')]"]
  by (simp add: wf_options_def render_explicit_def)

text \<open>
  C25. Round trip of the usual command line: printing option/value pairs as separate strings
  \<^verbatim>\<open>--opt value\<close> and parsing them gives back every pair, the later of two pairs for one
  option winning, when no value starts with a dash (such a value is read as an option).
\<close>

theorem parse_args_render_separate:
  assumes "wf_options (option_strings P)" and "set (map fst pairs) \<subseteq> set (option_strings P)"
    and "list_all plain_value (map snd pairs)"
  shows "parse_args P (render_separate pairs) = Inr (store_all pairs (\<lambda>_. None))"
  using assms by (simp add: parse_args_scan classify_render_separate scan_render_separate)

theorem parse_args_render_separate_witness:
  "wf_options (option_strings ex_parser) \<and>
   set (map fst [(''--input1'', ''q1.png''), (''--input3'', '''')]) \<subseteq> set (option_strings ex_parser) \<and>
   list_all plain_value (map snd [(''--input1'', ''q1.png''), (''--input3'', '''')]) \<and>
   parse_args ex_parser [''--input1'', ''q1.png'', ''--input3'', ''''] =
     Inr (store_all [(''--input1'', ''q1.png''), (''--input3'', '''')] (\<lambda>_. None))"
  using parse_args_render_separate[OF ex_parser_wf, of "[(''--input1'', ''q1.png''), (''--input3'', '''')]"]
  by (simp add: wf_options_def render_separate_def plain_value_def)

text \<open>
  C26. \<^verbatim>\<open>store\<close> semantics: appending \<^verbatim>\<open>--opt value\<close> to a command line that parses
  overrides that option's value and keeps the others.
\<close>

theorem parse_args_last_wins:
  assumes "parse_args P xs = Inr ns" and "wf_options (option_strings P)"
    and "opt \<in> set (option_strings P)" and "plain_value v"
  shows "parse_args P (xs @ [opt, v]) = Inr (ns(opt_dest opt := Some v))"
proof -
  have "v \<noteq> ''--''" using assms(4) by (auto simp: plain_value_def)
  then have "classify (option_strings P) [opt, v] = Inr [OptionArg opt None, Positional]"
    using assms(2,3,4) wf_optionsD[OF assms(2,3)]
    by (auto simp: parse_optional_option parse_optional_plain)
  then show ?thesis by (simp add: parse_args_append[OF assms(1)])
qed

theorem parse_args_last_wins_witness:
  "parse_args ex_parser [''--input1'', ''a''] = Inr ((\<lambda>_. None)(''input1'' := Some ''a'')) \<and>
   wf_options (option_strings ex_parser) \<and> ''--input1'' \<in> set (option_strings ex_parser) \<and>
   plain_value ''b'' \<and>
   parse_args ex_parser ([''--input1'', ''a''] @ [''--input1'', ''b'']) =
     Inr (((\<lambda>_. None)(''input1'' := Some ''a''))(opt_dest ''--input1'' := Some ''b''))"
proof -
  have h: "parse_args ex_parser [''--input1'', ''a''] = Inr ((\<lambda>_. None)(''input1'' := Some ''a''))"
    by (simp add: parse_args_scan parse_optional_def opt_dest_def)
  show ?thesis
    using parse_args_last_wins[OF h ex_parser_wf, of "''--input1''" "''b''"] h ex_parser_wf
    by (simp add: plain_value_def)
qed

text \<open>
  C27. A command line that parses, followed by an option with no value, fails with
  argparse's \<^verbatim>\<open>expected one argument\<close> message for that option.
\<close>

theorem parse_args_missing_value:
  assumes "parse_args P xs = Inr ns" and "wf_options (option_strings P)" and "opt \<in> set (option_strings P)"
  shows "parse_args P (xs @ [opt]) = Inl (ArgumentError (''argument '' @ opt @ '': expected one argument''))"
proof -
  have "classify (option_strings P) [opt] = Inr [OptionArg opt None]"
    using wf_optionsD[OF assms(2,3)] by (auto simp: parse_optional_option[OF assms(2,3)])
  then show ?thesis by (simp add: parse_args_append[OF assms(1)])
qed

theorem parse_args_missing_value_witness:
  "parse_args ex_parser [''--input1'', ''a''] = Inr ((\<lambda>_. None)(''input1'' := Some ''a'')) \<and>
   wf_options (option_strings ex_parser) \<and> ''--input3'' \<in> set (option_strings ex_parser) \<and>
   parse_args ex_parser ([''--input1'', ''a''] @ [''--input3'']) =
     Inl (ArgumentError ''argument --input3: expected one argument'')"
proof -
  have h: "parse_args ex_parser [''--input1'', ''a''] = Inr ((\<lambda>_. None)(''input1'' := Some ''a''))"
    by (simp add: parse_args_scan parse_optional_def opt_dest_def)
  show ?thesis
    using parse_args_missing_value[OF h ex_parser_wf, of "''--input3''"] h ex_parser_wf by simp
qed

text \<open>
  C28. A command line that parses, followed by a string that is not an option (the parser
  has no positional argument, e.g. a path given without its flag), fails with
  \<^verbatim>\<open>unrecognized arguments\<close> naming the string.
\<close>

theorem parse_args_unrecognized:
  assumes "parse_args P xs = Inr ns" and "s \<noteq> []" and "hd s \<noteq> CHR ''-''"
  shows "parse_args P (xs @ [s]) = Inl (ArgumentError (''unrecognized arguments: '' @ s))"
proof -
  have "s \<noteq> ''--''" using assms(3) by auto
  then have "classify (option_strings P) [s] = Inr [Positional]"
    using assms(2,3) by (simp add: parse_optional_plain plain_value_def)
  then show ?thesis by (simp add: parse_args_append[OF assms(1)])
qed

theorem parse_args_unrecognized_witness:
  "parse_args ex_parser [''--input1'', ''a''] = Inr ((\<lambda>_. None)(''input1'' := Some ''a'')) \<and>
   ''map.png'' \<noteq> [] \<and> hd ''map.png'' \<noteq> CHR ''-'' \<and>
   parse_args ex_parser ([''--input1'', ''a''] @ [''map.png'']) =
     Inl (ArgumentError ''unrecognized arguments: map.png'')"
proof -
  have h: "parse_args ex_parser [''--input1'', ''a''] = Inr ((\<lambda>_. None)(''input1'' := Some ''a''))"
    by (simp add: parse_args_scan parse_optional_def opt_dest_def)
  show ?thesis using parse_args_unrecognized[OF h, of "''map.png''"] h by simp
qed

text \<open>
  C29. An ambiguous abbreviation (such as \<^verbatim>\<open>--input\<close>, a prefix of all three options) is
  reported before any other error: whatever follows it, and even when an option before it lacks
  its value, since the strings are classified before the loop runs.
\<close>

theorem parse_args_ambiguous_first:
  assumes "\<forall>x\<in>set xs. x \<noteq> ''--'' \<and> \<not> isl (parse_optional (option_strings P) x)"
    and "s \<noteq> ''--''" and "parse_optional (option_strings P) s = Inl e"
  shows "parse_args P (xs @ s # ys) = Inl e"
proof -
  obtain cs where "classify (option_strings P) xs = Inr cs" using classify_ok[OF assms(1)] by blast
  moreover have "''--'' \<notin> set xs" using assms(1) by blast
  ultimately show ?thesis using assms(2,3) by (simp add: parse_args_scan classify_append)
qed

theorem parse_args_ambiguous_first_witness:
  "''--input1'' \<noteq> ''--'' \<and> \<not> isl (parse_optional (option_strings ex_parser) ''--input1'') \<and>
   ''--input'' \<noteq> ''--'' \<and>
   parse_optional (option_strings ex_parser) ''--input'' =
     Inl (ArgumentError ''ambiguous option: --input could match --input1, --input2, --input3'') \<and>
   parse_args ex_parser ([''--input1''] @ ''--input'' # [''x'']) =
     Inl (ArgumentError ''ambiguous option: --input could match --input1, --input2, --input3'')"
proof -
  have a: "parse_optional (option_strings ex_parser) ''--input'' =
     Inl (ArgumentError ''ambiguous option: --input could match --input1, --input2, --input3'')"
    by (simp add: parse_optional_def option_tuples_def starts_with_def)
  have b: "\<not> isl (parse_optional (option_strings ex_parser) ''--input1'')"
    by (simp add: parse_optional_def)
  have "\<forall>x\<in>set [''--input1'']. x \<noteq> ''--'' \<and> \<not> isl (parse_optional (option_strings ex_parser) x)"
    using b by simp
  from parse_args_ambiguous_first[OF this _ a, of "[''x'']"] a b show ?thesis by simp
qed

text \<open>
  C31. Equivalence: argparse's index-driven loop (next option index, extras before it,
  \<^verbatim>\<open>consume_optional\<close>) computes the same namespace, extras and errors as the structural
  scan of the classified strings.
\<close>

theorem parse_loop_eq_scan:
  "length args = length pat \<Longrightarrow> parse_loop args pat 0 ns ex = scan args pat ns ex"
  by (simp del: parse_loop.simps add: parse_loop_scan)

theorem parse_loop_eq_scan_witness:
  "length [''--input1'', ''a'', ''b''] = length [OptionArg ''--input1'' None, Positional, Positional] \<and>
   parse_loop [''--input1'', ''a'', ''b''] [OptionArg ''--input1'' None, Positional, Positional] 0 (\<lambda>_. None) [] =
     scan [''--input1'', ''a'', ''b''] [OptionArg ''--input1'' None, Positional, Positional] (\<lambda>_. None) []"
  using parse_loop_eq_scan[of "[''--input1'', ''a'', ''b'']" "[OptionArg ''--input1'' None, Positional, Positional]"]
  by simp

text \<open>
  C32. Termination of the parse loop: every round consumes at least the option string and
  stays within the string list, so the loop ends after at most as many rounds as strings.
\<close>

theorem consume_optional_bounds:
  assumes "j < length pat" and "consume_optional args pat j ns ex = Inr (stop, r)"
  shows "j < stop \<and> stop \<le> length pat"
  using assms by (auto simp: consume_optional_def split: arg_class.splits option.splits if_splits)

theorem consume_optional_bounds_witness:
  "0 < length [OptionArg ''--input1'' None, Positional] \<and>
   consume_optional [''--input1'', ''a''] [OptionArg ''--input1'' None, Positional] 0 (\<lambda>_. None) [] =
     Inr (2, (\<lambda>_. None)(opt_dest ''--input1'' := Some ''a''), []) \<and> 0 < (2::nat) \<and> 2 \<le> length [OptionArg ''--input1'' None, Positional]"
proof -
  have c: "consume_optional [''--input1'', ''a''] [OptionArg ''--input1'' None, Positional] 0 (\<lambda>_. None) [] =
     Inr (2, (\<lambda>_. None)(opt_dest ''--input1'' := Some ''a''), [])"
    by (simp add: consume_optional_def)
  from consume_optional_bounds[OF _ c] c show ?thesis by simp
qed

text \<open>
  C33. Type of the namespace: parsing only ever sets the \<^verbatim>\<open>dest\<close> of an option the parser
  declares, so \<^verbatim>\<open>args.input1\<close>, \<^verbatim>\<open>args.input2\<close>, \<^verbatim>\<open>args.input3\<close> are the only
  attributes a command line can give a value (an unknown option never reaches the namespace).
\<close>

theorem parse_args_dests:
  assumes "parse_args P argv = Inr ns" and "ns d = Some v"
  shows "d \<in> opt_dest ` set (option_strings P)"
proof -
  obtain cs where "classify (option_strings P) argv = Inr cs" "scan argv cs (\<lambda>_. None) [] = Inr (ns, [])"
    using assms(1) by (rule parse_args_InrE)
  with scan_dests[of argv cs _ _ ns "[]" d v] assms(2) classify_in show ?thesis by fastforce
qed

theorem parse_args_dests_witness:
  "parse_args ex_parser [''--input3'', ''m.png''] = Inr ((\<lambda>_. None)(''input3'' := Some ''m.png'')) \<and>
   ((\<lambda>_. None)(''input3'' := Some ''m.png'')) ''input3'' = Some ''m.png'' \<and>
   ''input3'' \<in> opt_dest ` set (option_strings ex_parser)"
proof -
  have h: "parse_args ex_parser [''--input3'', ''m.png''] = Inr ((\<lambda>_. None)(''input3'' := Some ''m.png''))"
    by (simp add: parse_args_scan parse_optional_def opt_dest_def)
  from parse_args_dests[OF h, of "''input3''" "''m.png''"] h show ?thesis by simp
qed

end
