(* ===== verification/Pipeline.thy ===== *)
theory Pipeline
  imports Matcher Localizer Args
begin

text \<open>
  The program's entry (\<^verbatim>\<open>src/cv_task_handenur.py\<close>, lines 16--30 and 111--145):
  \<^verbatim>\<open>read_image\<close>, \<^verbatim>\<open>find_orb_features\<close>, \<^verbatim>\<open>main\<close> and the module's
  \<^verbatim>\<open>__main__\<close> guard. The outside world is what the program prints on standard output
  and standard error and the windows it shows; the OpenCV primitives whose algorithms are not
  modelled are the fields of \<open>cvlib\<close>: \<^verbatim>\<open>cv2.imread\<close> (the image at a path, or
  \<^verbatim>\<open>None\<close>), ORB detection (key points and descriptors of a loaded image for a feature
  budget) and the RANSAC estimator. ORB on a \<^verbatim>\<open>None\<close> image (an empty matrix) finds
  nothing and raises nothing: \<^verbatim>\<open>detectAndCompute\<close> returns at once on an empty image.
  \<^verbatim>\<open>read_image\<close> on a missing argument (\<^verbatim>\<open>None\<close> path: the flags are optional) raises a
  \<^verbatim>\<open>TypeError\<close> before printing. \<^verbatim>\<open>main\<close> first builds its parser and parses
  \<^verbatim>\<open>sys.argv[1:]\<close> (theory \<open>Args\<close>); \<^verbatim>\<open>parser.error\<close> writes the usage and
  \<^verbatim>\<open>prog: error: message\<close> to standard error and exits with status 2 (the usage line, whose
  wrapping depends on the terminal width, is not modelled). \<^verbatim>\<open>cv2.resize(img, (900, 600))\<close> takes (width, height), so a shown
  view has 600 rows and 900 columns; \<^verbatim>\<open>imshow\<close> replaces a window of the same name.
\<close>

record cvlib =
  imread :: "string \<Rightarrow> gray_image option"
  orb_detect :: "nat \<Rightarrow> gray_image \<Rightarrow> keypoint list \<times> descriptor list"
  ransac_fit :: fitter

record view =
  v_rows :: nat
  v_cols :: nat
  v_source :: canvas

record world =
  stdout :: "string list"
  stderr :: "string list"
  windows :: "(string \<times> view) list"
  key_waited :: bool

definition py_print :: "string \<Rightarrow> (world, unit) st" where
  "py_print s w = (Inr (), w\<lparr>stdout := stdout w @ [s]\<rparr>)"

definition read_image :: "cvlib \<Rightarrow> string option \<Rightarrow> (world, gray_image option) st" where
  "read_image lib filename =
     (case filename of
        None \<Rightarrow> st_lift (Inl TypeError)
      | Some f \<Rightarrow>
          (case imread lib f of
             None \<Rightarrow> st_bind (py_print (''An error occurs. Image '' @ f @ '' cannot be loaded.''))
                       (\<lambda>_. st_return None)
           | Some img \<Rightarrow> st_bind (py_print ''Image successfully loaded.'') (\<lambda>_. st_return (Some img))))"

definition find_orb_features ::
  "cvlib \<Rightarrow> gray_image option \<Rightarrow> nat \<Rightarrow> keypoint list \<times> descriptor list" where
  "find_orb_features lib img n_features =
     (case img of None \<Rightarrow> ([], []) | Some i \<Rightarrow> orb_detect lib n_features i)"

definition cv_resize :: "canvas \<Rightarrow> nat \<times> nat \<Rightarrow> view" where
  "cv_resize src dsize = \<lparr>v_rows = snd dsize, v_cols = fst dsize, v_source = src\<rparr>"

definition imshow :: "string \<Rightarrow> view \<Rightarrow> (world, unit) st" where
  "imshow winname mat w =
     (Inr (), w\<lparr>windows := filter (\<lambda>(n, _). n \<noteq> winname) (windows w) @ [(winname, mat)]\<rparr>)"

definition wait_key :: "(world, unit) st" where
  "wait_key w = (Inr (), w\<lparr>key_waited := True\<rparr>)"

text \<open>\<^verbatim>\<open>parser.error(message)\<close>: the message on standard error, then \<^verbatim>\<open>SystemExit(2)\<close>.\<close>

definition parser_error :: "arg_parser \<Rightarrow> string \<Rightarrow> (world, 'a) st" where
  "parser_error parser msg w =
     (Inl (SystemExit 2), w\<lparr>stderr := stderr w @ [prog parser @ '': error: '' @ msg]\<rparr>)"

definition parse_args_exit :: "arg_parser \<Rightarrow> string list \<Rightarrow> (world, namespace) st" where
  "parse_args_exit parser args =
     (case parse_args parser args of
        Inl (ArgumentError msg) \<Rightarrow> parser_error parser msg
      | r \<Rightarrow> st_lift r)"

definition main :: "cvlib \<Rightarrow> string list \<Rightarrow> (world, unit) st" where
  "main lib sys_argv =
     st_bind (st_lift (argument_parser sys_argv ''Locating a Defined Area in the Star Map'')) (\<lambda>parser0.
     let parser = add_argument (add_argument (add_argument parser0 ''--input1'') ''--input2'') ''--input3''
     in st_bind (parse_args_exit parser (tl sys_argv)) (\<lambda>args.
     st_bind (read_image lib (args ''input1'')) (\<lambda>img_query1.
     st_bind (read_image lib (args ''input2'')) (\<lambda>img_query2.
     st_bind (read_image lib (args ''input3'')) (\<lambda>img_main.
       let (kp1, des1) = find_orb_features lib img_query1 10000;
           (kp2, des2) = find_orb_features lib img_query2 10000;
           (kp3, des3) = find_orb_features lib img_main 10000
       in st_bind (st_lift (match_orb_features des1 des3)) (\<lambda>matches1.
          st_bind (st_lift (match_orb_features des2 des3)) (\<lambda>matches2.
          st_bind (st_lift (draw_corner_coordinates (ransac_fit lib) img_query1 img_main
                                                    matches1 kp1 kp3)) (\<lambda>im_matches1.
          st_bind (st_lift (draw_corner_coordinates (ransac_fit lib) img_query2 img_main
                                                    matches2 kp2 kp3)) (\<lambda>im_matches2.
            let im_matches1_resized = cv_resize im_matches1 (900, 600);
                im_matches2_resized = cv_resize im_matches2 (900, 600)
            in st_bind (imshow ''Query Image 1 Match'' im_matches1_resized) (\<lambda>_.
               st_bind (imshow ''Query Image 2 Match'' im_matches2_resized) (\<lambda>_.
               wait_key)))))))))))"

text \<open>\<^verbatim>\<open>if __name__ == "__main__": main()\<close>: importing the module runs nothing.\<close>

definition run_module :: "cvlib \<Rightarrow> string \<Rightarrow> string list \<Rightarrow> (world, unit) st" where
  "run_module lib name sys_argv = (if name = ''__main__'' then main lib sys_argv else st_return ())"

subsection \<open>Reading the command line and the images\<close>

text \<open>The parser \<^verbatim>\<open>main\<close> builds, for a program path \<^verbatim>\<open>sys.argv[0]\<close>.\<close>

definition cli_parser :: "string \<Rightarrow> arg_parser" where
  "cli_parser a0 = \<lparr>prog = basename a0, description = ''Locating a Defined Area in the Star Map'',
                     option_strings = [''--input1'', ''--input2'', ''--input3'']\<rparr>"

lemmas main_simps = main_def argument_parser_def add_argument_def cli_parser_def parse_args_exit_def

definition load_message :: "cvlib \<Rightarrow> string \<Rightarrow> string" where
  "load_message lib f =
     (case imread lib f of
        None \<Rightarrow> ''An error occurs. Image '' @ f @ '' cannot be loaded.''
      | Some _ \<Rightarrow> ''Image successfully loaded.'')"

lemma read_image_Some:
  "read_image lib (Some f) w = (Inr (imread lib f), w\<lparr>stdout := stdout w @ [load_message lib f]\<rparr>)"
  by (simp add: read_image_def load_message_def py_print_def st_bind_def split: option.splits)

lemma read_image_None: "read_image lib None w = (Inl TypeError, w)"
  by (simp add: read_image_def)

subsection \<open>A run in which everything succeeds\<close>

abbreviation ex_descs :: "descriptor list" where
  "ex_descs \<equiv> [[0], [15], [240], [255]]"

abbreviation ex_lib :: cvlib where
  "ex_lib \<equiv> \<lparr>imread = \<lambda>_. Some ex_query, orb_detect = \<lambda>_ _. (ex_kps, ex_descs),
             ransac_fit = \<lambda>_ _. Some hom_id\<rparr>"

abbreviation ex_cmd :: "string list" where
  "ex_cmd \<equiv> [''--input1'', ''q1.png'', ''--input2'', ''q2.png'', ''--input3'', ''map.png'']"

abbreviation ex_ns :: namespace where
  "ex_ns \<equiv> (\<lambda>_. None)(''input1'' := Some ''q1.png'', ''input2'' := Some ''q2.png'', ''input3'' := Some ''map.png'')"

abbreviation ex_world :: world where
  "ex_world \<equiv> \<lparr>stdout = [], stderr = [], windows = [], key_waited = False\<rparr>"

lemma ex_match: "match_orb_features ex_descs ex_descs = Inr ex_good"
  by code_simp

lemma ex_parse: "parse_args (cli_parser ''cv_task_handenur.py'') ex_cmd = Inr ex_ns"
  by (simp add: cli_parser_def parse_args_scan parse_optional_def opt_dest_def)

lemma ex_main_runs:
  "\<exists>W. main ex_lib (''cv_task_handenur.py'' # ex_cmd) ex_world = (Inr (), W)"
  using ex_valid ex_parse
  by (simp add: main_simps read_image_Some find_orb_features_def ex_match draw_corner_coordinates_eq
                cv_resize_def imshow_def wait_key_def load_message_def)


subsection \<open>Claims on \<^verbatim>\<open>main\<close>\<close>

text \<open>
  C4. If any of the three images fails to load, \<^verbatim>\<open>main\<close> prints the three load messages
  in order and then ends with an exception before any window is shown: a query image that is
  \<^verbatim>\<open>None\<close> reaches \<^verbatim>\<open>draw_corner_coordinates\<close> (\<^verbatim>\<open>AttributeError\<close> on
  \<^verbatim>\<open>.shape\<close>), a main image that is \<^verbatim>\<open>None\<close> makes the matcher or the drawing raise.
  The failed image is not checked by the caller, and a failure of either query also prevents
  the other query's result from being shown: the queries are not processed independently.
\<close>

theorem main_load_failure:
  assumes "parse_args (cli_parser a0) argv = Inr args"
    and "args ''input1'' = Some f1" and "args ''input2'' = Some f2" and "args ''input3'' = Some f3"
    and "imread lib f1 = None \<or> imread lib f2 = None \<or> imread lib f3 = None"
  shows "\<exists>e. main lib (a0 # argv) w =
           (Inl e, w\<lparr>stdout := stdout w @ [load_message lib f1, load_message lib f2, load_message lib f3]\<rparr>)"
  using assms
  by (auto simp: main_simps read_image_Some draw_corner_coordinates_None find_orb_features_def Let_def
           split: prod.splits sum.splits option.splits)

theorem main_load_failure_witness:
  "parse_args (cli_parser ''cv_task_handenur.py'') ex_cmd = Inr ex_ns
   \<and> ex_ns ''input1'' = Some ''q1.png'' \<and> ex_ns ''input2'' = Some ''q2.png'' \<and> ex_ns ''input3'' = Some ''map.png''
   \<and> imread (ex_lib\<lparr>imread := \<lambda>f. if f = ''q2.png'' then None else Some ex_query\<rparr>) ''q2.png'' = None
   \<and> (\<exists>e. main (ex_lib\<lparr>imread := \<lambda>f. if f = ''q2.png'' then None else Some ex_query\<rparr>)
              (''cv_task_handenur.py'' # ex_cmd) ex_world =
          (Inl e, ex_world\<lparr>stdout := [''Image successfully loaded.'', ''An error occurs. Image q2.png cannot be loaded.'',
                                      ''Image successfully loaded.'']\<rparr>))"
proof -
  have h: "ex_ns ''input1'' = Some ''q1.png''" "ex_ns ''input2'' = Some ''q2.png''"
    "ex_ns ''input3'' = Some ''map.png''"
    "imread (ex_lib\<lparr>imread := \<lambda>f. if f = ''q2.png'' then None else Some ex_query\<rparr>) ''q1.png'' = None
     \<or> imread (ex_lib\<lparr>imread := \<lambda>f. if f = ''q2.png'' then None else Some ex_query\<rparr>) ''q2.png'' = None
     \<or> imread (ex_lib\<lparr>imread := \<lambda>f. if f = ''q2.png'' then None else Some ex_query\<rparr>) ''map.png'' = None"
    by simp_all
  from main_load_failure[OF ex_parse h, of ex_world] h ex_parse
  show ?thesis by (simp add: load_message_def)
qed

text \<open>
  C13. A run of \<^verbatim>\<open>main\<close> that returns has printed three success messages, shows exactly
  the two windows \<^verbatim>\<open>'Query Image 1 Match'\<close> and \<^verbatim>\<open>'Query Image 2 Match'\<close>, in that
  order, each a 600-row, 900-column resize of a canvas (\<^verbatim>\<open>cv2.resize\<close> takes
  (width, height)), and has waited for a key.
\<close>

theorem main_success:
  assumes "main lib sys_argv w = (Inr (), w')"
  shows "stdout w' = stdout w @ replicate 3 ''Image successfully loaded.''
       \<and> (\<exists>c1 c2. windows w' =
             filter (\<lambda>(n, _). n \<noteq> ''Query Image 1 Match'' \<and> n \<noteq> ''Query Image 2 Match'') (windows w)
             @ [(''Query Image 1 Match'', \<lparr>v_rows = 600, v_cols = 900, v_source = c1\<rparr>),
                (''Query Image 2 Match'', \<lparr>v_rows = 600, v_cols = 900, v_source = c2\<rparr>)])
       \<and> key_waited w'"
  using assms
  by (auto simp: main_simps parser_error_def read_image_def load_message_def py_print_def
                 draw_corner_coordinates_None find_orb_features_def Let_def cv_resize_def imshow_def
                 wait_key_def numeral_3_eq_3 filter_filter
           split: prod.splits sum.splits option.splits list.splits exc.splits)
     (auto intro!: filter_cong)

theorem main_success_witness:
  "\<exists>W. main ex_lib (''cv_task_handenur.py'' # ex_cmd) ex_world = (Inr (), W)
       \<and> key_waited W \<and> length (windows W) = 2"
proof -
  obtain W where run: "main ex_lib (''cv_task_handenur.py'' # ex_cmd) ex_world = (Inr (), W)"
    using ex_main_runs by blast
  from main_success[OF run] run show ?thesis by auto
qed

text \<open>
  C21. The three inputs are optional flags: when \<^verbatim>\<open>--input1\<close> is missing from a command
  line that parses, \<^verbatim>\<open>main\<close> raises at once, with nothing printed and nothing shown (the
  specification speaks of three required path arguments).
\<close>

theorem main_missing_input:
  "parse_args (cli_parser a0) argv = Inr args \<Longrightarrow> args ''input1'' = None \<Longrightarrow>
   main lib (a0 # argv) w = (Inl TypeError, w)"
  by (simp add: main_simps read_image_None)

theorem main_missing_input_witness:
  "parse_args (cli_parser ''cv_task_handenur.py'') [''--input2'', ''q2.png''] =
     Inr ((\<lambda>_. None)(''input2'' := Some ''q2.png'')) \<and>
   ((\<lambda>_. None)(''input2'' := Some ''q2.png'')) ''input1'' = None \<and>
   main ex_lib (''cv_task_handenur.py'' # [''--input2'', ''q2.png'']) ex_world = (Inl TypeError, ex_world)"
proof -
  have p: "parse_args (cli_parser ''cv_task_handenur.py'') [''--input2'', ''q2.png''] =
     Inr ((\<lambda>_. None)(''input2'' := Some ''q2.png''))"
    by (simp add: cli_parser_def parse_args_scan parse_optional_def opt_dest_def)
  from main_missing_input[OF p, of ex_lib ex_world] p show ?thesis by simp
qed

text \<open>
  C24. A command line that \<^verbatim>\<open>argparse\<close> rejects (an unknown or ambiguous option, an option
  without its value, a path given without its flag) ends the program with
  \<^verbatim>\<open>SystemExit(2)\<close> after writing \<^verbatim>\<open>prog: error: message\<close> to standard error, where
  \<^verbatim>\<open>prog\<close> is the base name of \<^verbatim>\<open>sys.argv[0]\<close>; no image is read and nothing is printed
  on standard output or shown.
\<close>

theorem main_bad_command_line:
  "parse_args (cli_parser a0) argv = Inl (ArgumentError msg) \<Longrightarrow>
   main lib (a0 # argv) w = (Inl (SystemExit 2), w\<lparr>stderr := stderr w @ [basename a0 @ '': error: '' @ msg]\<rparr>)"
  by (simp add: main_simps parser_error_def)

theorem main_bad_command_line_witness:
  "parse_args (cli_parser ''/opt/cv_task_handenur.py'') [''q1.png''] =
     Inl (ArgumentError ''unrecognized arguments: q1.png'') \<and>
   main ex_lib (''/opt/cv_task_handenur.py'' # [''q1.png'']) ex_world =
     (Inl (SystemExit 2), ex_world\<lparr>stderr := [''cv_task_handenur.py: error: unrecognized arguments: q1.png'']\<rparr>)"
proof -
  have p: "parse_args (cli_parser ''/opt/cv_task_handenur.py'') [''q1.png''] =
     Inl (ArgumentError ''unrecognized arguments: q1.png'')"
    by (simp add: cli_parser_def parse_args_scan parse_optional_def)
  from main_bad_command_line[OF p, of ex_lib ex_world] p show ?thesis by (simp add: basename_def)
qed



end
