(* ===== verification/Spec2Isabelle.thy ===== *)
theory Spec2Isabelle
  imports Pipeline
begin

text \<open>
  \<^bold>\<open>A verification model of \<^verbatim>\<open>src/cv_task_handenur.py\<close>.\<close>

  The program locates two cropped query images inside a main image. \<^verbatim>\<open>main\<close> parses
  its command line with \<^verbatim>\<open>argparse\<close> (three optional flags \<^verbatim>\<open>--input1\<close>,
  \<^verbatim>\<open>--input2\<close>, \<^verbatim>\<open>--input3\<close>), reads the three images (\<^verbatim>\<open>read_image\<close>), extracts ORB key points and 32-byte binary descriptors
  from each (\<^verbatim>\<open>find_orb_features\<close>), matches each query's descriptors against the main
  image's (\<^verbatim>\<open>match_orb_features\<close>: OpenCV's brute-force \<^verbatim>\<open>knnMatch\<close> with
  \<open>k = 2\<close> under the Hamming norm, then Lowe's ratio test with 0.7), and, per query,
  \<^verbatim>\<open>draw_corner_coordinates\<close> draws the matches side by side, fits a homography
  (\<^verbatim>\<open>findHomography\<close> with RANSAC) from the matched key points, maps the query's four
  corners through it (\<^verbatim>\<open>perspectiveTransform\<close>) and marks them with diamonds on the
  main image's half of the canvas. Finally both canvases are resized and shown. The parts
  interact only through values passed down this pipeline; the one piece of shared mutable
  state is the canvas \<^verbatim>\<open>img_matches\<close>, which \<^verbatim>\<open>drawMatches\<close> and
  \<^verbatim>\<open>drawMarker\<close> modify in place.

  \<^bold>\<open>Theories\<close> (each a group of definitions in source order, then its lemmas and claims).
  \<^item> \<open>Prelude\<close>: the Python exceptions the program can raise (\<open>exc\<close>; results are
    \<open>exc + 'a\<close>, \<open>Inl\<close> the exception), the exception-and-state monad \<open>st\<close> in which
    \<^verbatim>\<open>main\<close> is written (an exception keeps the world reached), and \<open>py_int\<close>,
    Python's \<^verbatim>\<open>int()\<close> on floats (truncation towards zero).
  \<^item> \<open>Hamming\<close>: descriptors as lists of \<open>8 word\<close> bytes; \<open>popcount\<close> and
    \<open>norm_hamming\<close> are OpenCV's \<^verbatim>\<open>normHamming\<close> selected by \<^verbatim>\<open>NORM_HAMMING\<close>
    (line 35). Proved: a metric on rows of one length (C22), at most 8 per byte (C23).
  \<^item> \<open>Knn\<close>: \<^verbatim>\<open>bf.knnMatch\<close> (line 36) as OpenCV computes it: \<open>knn_update\<close> is the
    k-best insertion of \<^verbatim>\<open>batchDistance\<close> (a new (distance, index) pair enters below the
    worst kept one and is shifted in after the kept pairs of equal distance), \<open>knn_row\<close>
    folds it over the train rows in index order, \<open>knn_match\<close> builds the \<^verbatim>\<open>DMatch\<close>
    lists and raises \<^verbatim>\<open>cv2.error\<close> on an empty train set with a non-empty query set.
    Proved: the one-pass routine equals the reference \<open>knn_spec\<close>, the first \<open>k\<close>
    candidates in (distance, index) order (C6); the first neighbour is a nearest train row
    (C17); a query gets \<open>min k n\<close> neighbours, nearest first (C18).
  \<^item> \<open>Matcher\<close>: \<^verbatim>\<open>match_orb_features\<close> (lines 34--41) as \<open>knn_match\<close> followed by
    \<open>ratio_loop\<close>, the \<^verbatim>\<open>for m, n in matches\<close> loop, whose unpacking raises
    \<^verbatim>\<open>ValueError\<close> on a neighbour list that does not have two entries; the literal
    \<^verbatim>\<open>0.7\<close> is the double \<open>lowe_ratio = 3152519739159347 / 2^52\<close>. Its abstract
    specification is \<open>match_spec\<close>. Proved: every returned match is the unique nearest
    train row of its query, nearer by the ratio than every other train row (C1); the function
    fails exactly when there are query rows and fewer than two train rows (C2); with two or
    more train rows it returns \<open>match_spec\<close> (C7, refinement); matches come in strictly
    increasing query order (C15); the test is exactly \<open>10 d\<^sub>1 < 7 d\<^sub>2\<close> on distances
    below \<open>2^51\<close> (C16).
  \<^item> \<open>Geometry\<close>: images as their shape and pixel rows, the 3x3 homography,
    \<^verbatim>\<open>perspectiveTransform\<close> (line 75) on points as OpenCV computes it (division by the
    third coordinate when its magnitude exceeds \<^verbatim>\<open>FLT_EPSILON\<close>, the origin otherwise,
    \<^verbatim>\<open>cv2.error\<close> for a missing matrix) and the corner array (lines 65--73). Proved: the
    identity round trip on the corners (C19), composition of transforms (C20), and invariance
    under scaling the matrix where the guard passes for both (C35; the guard itself is not
    scale invariant).
  \<^item> \<open>Render\<close>: key points, the canvas of \<^verbatim>\<open>np.empty\<close> (lines 46--47) as shape, drawn
    content and markers; \<^verbatim>\<open>drawMatches\<close> (lines 49--50) asserts valid indices and writes
    in place only into an array of the shape it needs; \<^verbatim>\<open>drawMarker\<close> (lines 78--105).
  \<^item> \<open>Localizer\<close>: the point loop (lines 52--60), the \<^verbatim>\<open>findHomography\<close> call
    (line 62: the four-point check, then the estimator, a parameter) and
    \<^verbatim>\<open>draw_corner_coordinates\<close> (lines 45--107) statement by statement. Proved: its
    outcome on every path (\<open>draw_corner_coordinates_eq\<close>); fewer than four matches raise
    (C5); the complete list of failures (C8); the markers sit at the projected corners
    shifted by the query width (C9); the canvas is the preallocated one with the drawing in
    it (C10); the specification's translation scenario (C3); a degenerate fit is silent (C14).
  \<^item> \<open>Args\<close>: the parser \<^verbatim>\<open>main\<close> builds (lines 112--116) and \<^verbatim>\<open>parse_args\<close>
    (line 117) as CPython 3.11's \<^verbatim>\<open>argparse\<close> runs it for a parser of optional
    \<^verbatim>\<open>store\<close> flags: \<open>parse_optional\<close> and \<open>classify\<close> give each string its class
    (argument, known option with or without an explicit value, reached exactly or by a unique
    abbreviation, unknown option; an ambiguous abbreviation is an error; everything after
    \<^verbatim>\<open>'--'\<close> is an argument), \<open>parse_loop\<close> is the index loop of
    \<^verbatim>\<open>_parse_known_args\<close> with \<open>consume_optional\<close>, a \<open>function\<close> whose
    termination is proved by the measure \<open>length pat - i\<close>, and \<open>parse_args\<close> adds the
    check for unrecognized arguments. The definitions were compared with the library on 700
    generated command lines. Proved: the loop advances within bounds (C32) and equals a
    structural scan (C31); both printed forms of a command line parse back (C25, C30); the
    last occurrence of an option wins (C26); the errors for a missing value (C27), a string
    that is not an option (C28) and an ambiguous abbreviation, which comes first (C29); only
    declared attributes get values (C33).
  \<^item> \<open>Pipeline\<close>: \<^verbatim>\<open>read_image\<close>, \<^verbatim>\<open>find_orb_features\<close>, \<^verbatim>\<open>main\<close> and the
    \<^verbatim>\<open>__main__\<close> guard (lines 16--30, 111--145) over a world of standard output, standard
    error, windows and the key wait; \<^verbatim>\<open>parser.error\<close> is \<open>parser_error\<close>. The OpenCV
    primitives not modelled (\<^verbatim>\<open>imread\<close>, ORB detection, the RANSAC estimator) are the
    fields of \<open>cvlib\<close>. Proved: a rejected command line exits with status 2 and its message
    on standard error before anything else happens (C24), and standard error is written in no
    other case (C34); a failed load ends in an exception after the three messages and before
    any window (C4); a run that returns shows the two 600x900 windows in order (C13); a
    missing flag raises at once (C21).
  \<^item> This theory: properties across components. The matcher's output is always a valid
    index list for the localizer under ORB's contract of parallel key-point and descriptor
    lists (C11); \<^verbatim>\<open>main\<close> completes when both queries keep four matches and the
    estimator succeeds (C12); and end to end, a successful run's final world is determined by
    the two canvases of \<^verbatim>\<open>draw_corner_coordinates\<close> (C36).

  \<^bold>\<open>Bounds and evaluation.\<close> No loop of the program is unbounded: every loop runs over a
  finite list, so all definitions are total structural recursions or folds, except argparse's
  index loop, whose termination is proved; no fuel is needed. The only numeric bound is the one on the ratio test: distances below \<open>2^51\<close>,
  far above the 256 a pair of 32-byte rows can reach (C23). Witnesses evaluate the model on
  small inputs (one-byte descriptors, a 2x3 query in a 10x10 main image) with
  \<open>simp\<close> and \<open>code_simp\<close>.

  \<^bold>\<open>Not modelled.\<close> Pixel contents and the rasterisation of lines and markers (only what
  is drawn where); ORB key-point detection and RANSAC (parameters; C11 and C12 state the
  contracts the program relies on); the usage text \<^verbatim>\<open>parser.error\<close> prints before its
  message (its line breaks depend on the terminal width) and the parts of \<^verbatim>\<open>argparse\<close>
  this parser does not use (positionals, \<^verbatim>\<open>-h\<close>, other actions, reading arguments from
  files); window management beyond the list of shown windows; float rounding: points are real
  numbers (the float32 sum in \<^verbatim>\<open>int(scene_corners[i, 0, 0] + query_image.shape[1])\<close> is
  rounded in a way that depends on the NumPy version) and the product \<open>0.7 * d\<close> is exact. Rounding cannot change the ratio test on whole
  distances: the exact product lies below \<open>7 d / 10\<close> by less than \<open>10^-14\<close>, so
  rounding to the nearest double can reach, but not pass, the integer \<open>7 d / 10\<close> when
  there is one, and cannot cross an integer otherwise.

  \<^bold>\<open>Plan for later work.\<close> float32 rounding of the marker coordinates for a fixed NumPy
  version; drawing of the match lines and key points (\<^verbatim>\<open>drawMatches\<close>' flags) at the
  level of pixels, if a pixel model is added.
\<close>

section \<open>Properties across components\<close>

text \<open>
  ORB's contract: the key points and the descriptor rows it returns are parallel lists.
\<close>

definition orb_parallel :: "cvlib \<Rightarrow> bool" where
  "orb_parallel lib \<longleftrightarrow> (\<forall>n img. length (fst (orb_detect lib n img)) = length (snd (orb_detect lib n img)))"

lemma find_orb_features_parallel:
  "orb_parallel lib \<Longrightarrow> length (fst (find_orb_features lib img n)) = length (snd (find_orb_features lib img n))"
  by (auto simp: orb_parallel_def find_orb_features_def split: option.splits)

lemma match_valid:
  assumes "match_orb_features des1 des3 = Inr good"
    and "length kp1 = length des1" and "length kp3 = length des3"
  shows "valid_matches good kp1 kp3"
  using match_orb_features_Inr[OF assms(1)] assms(2,3) match_spec_unique_nearest[of des3 _ des1]
  by (auto simp: valid_matches_def list_all_iff)

text \<open>
  C11. The matches \<^verbatim>\<open>match_orb_features\<close> returns index the key-point lists of the two
  images whenever, as ORB guarantees, each image has one key point per descriptor row: the
  index assertion of \<^verbatim>\<open>drawMatches\<close> and the \<^verbatim>\<open>IndexError\<close> of the point loop of
  \<^verbatim>\<open>draw_corner_coordinates\<close> cannot fire on the matcher's output.
\<close>

theorem matcher_output_valid_for_localizer:
  assumes "match_orb_features des1 des3 = Inr good"
    and "length kp1 = length des1" and "length kp3 = length des3"
  shows "valid_matches good kp1 kp3 \<and> draw_matches q kp1 mi kp3 good
           (np_empty (max (img_rows q) (img_rows mi), img_cols q + img_cols mi, 3)) \<noteq> Inl e"
  using match_valid[OF assms] by (simp add: draw_matches_Inl valid_matches_def)

theorem matcher_output_valid_for_localizer_witness:
  "match_orb_features ex_descs ex_descs = Inr ex_good \<and> length ex_kps = length ex_descs \<and>
   valid_matches ex_good ex_kps ex_kps"
proof -
  have "length ex_kps = length ex_descs" by simp
  with matcher_output_valid_for_localizer[OF ex_match this this] ex_match show ?thesis by blast
qed



text \<open>
  C36. End to end: when the command line parses, the three images load, and both calls of
  \<^verbatim>\<open>draw_corner_coordinates\<close> return canvases, \<^verbatim>\<open>main\<close> returns with exactly three
  success messages printed, the two windows holding those canvases resized to 600 rows and 900
  columns, in the order query 1, query 2, and the key wait done. Together with C10, which
  gives the canvas itself, this fixes the program's whole visible output.
\<close>

theorem main_windows:
  assumes "parse_args (cli_parser a0) argv = Inr args"
    and "args ''input1'' = Some f1" and "args ''input2'' = Some f2" and "args ''input3'' = Some f3"
    and "imread lib f1 = Some q1" and "imread lib f2 = Some q2" and "imread lib f3 = Some mi"
    and "orb_detect lib 10000 q1 = (kp1, des1)" and "orb_detect lib 10000 q2 = (kp2, des2)"
    and "orb_detect lib 10000 mi = (kp3, des3)"
    and "match_orb_features des1 des3 = Inr g1" and "match_orb_features des2 des3 = Inr g2"
    and "draw_corner_coordinates (ransac_fit lib) (Some q1) (Some mi) g1 kp1 kp3 = Inr c1"
    and "draw_corner_coordinates (ransac_fit lib) (Some q2) (Some mi) g2 kp2 kp3 = Inr c2"
  shows "main lib (a0 # argv) w =
           (Inr (), w\<lparr>stdout := stdout w @ replicate 3 ''Image successfully loaded.'',
                     windows := filter (\<lambda>(n, _). n \<noteq> ''Query Image 1 Match'' \<and> n \<noteq> ''Query Image 2 Match'')
                                  (windows w)
                                @ [(''Query Image 1 Match'', \<lparr>v_rows = 600, v_cols = 900, v_source = c1\<rparr>),
                                   (''Query Image 2 Match'', \<lparr>v_rows = 600, v_cols = 900, v_source = c2\<rparr>)],
                     key_waited := True\<rparr>)"
  using assms
  by (simp add: main_simps read_image_Some find_orb_features_def load_message_def cv_resize_def
                imshow_def wait_key_def filter_filter numeral_3_eq_3 split_def)

theorem main_windows_witness:
  "main ex_lib (''cv_task_handenur.py'' # ex_cmd) ex_world =
     (Inr (), ex_world\<lparr>stdout := replicate 3 ''Image successfully loaded.'',
       windows := [(''Query Image 1 Match'', \<lparr>v_rows = 600, v_cols = 900,
                      v_source = located_canvas ex_query ex_query ex_good ex_kps ex_kps hom_id\<rparr>),
                   (''Query Image 2 Match'', \<lparr>v_rows = 600, v_cols = 900,
                      v_source = located_canvas ex_query ex_query ex_good ex_kps ex_kps hom_id\<rparr>)],
       key_waited := True\<rparr>)"
proof -
  have d: "draw_corner_coordinates (ransac_fit ex_lib) (Some ex_query) (Some ex_query) ex_good ex_kps ex_kps =
           Inr (located_canvas ex_query ex_query ex_good ex_kps ex_kps hom_id)"
    using ex_valid by (simp add: draw_corner_coordinates_eq)
  have h: "ex_ns ''input1'' = Some ''q1.png''" "ex_ns ''input2'' = Some ''q2.png''"
    "ex_ns ''input3'' = Some ''map.png''" "imread ex_lib ''q1.png'' = Some ex_query"
    "imread ex_lib ''q2.png'' = Some ex_query" "imread ex_lib ''map.png'' = Some ex_query"
    "orb_detect ex_lib 10000 ex_query = (ex_kps, ex_descs)"
    by simp_all
  from main_windows[OF ex_parse h h(7) h(7) ex_match ex_match d d, of ex_world] show ?thesis by simp
qed

end
